theory Spec2Isabelle
  imports Complex_Main "HOL-Library.AList"
begin

section \<open>JavaScript strings and numbers\<close>

text \<open>
  The program is the React Native screen \<^verbatim>\<open>src/screens/test.tsx\<close>. A JavaScript string is a
  sequence of UTF-16 code units; every character the program names lies in the Basic
  Multilingual Plane, so one character is one code unit. Strings are lists of code units,
  written in hexadecimal where they are not ASCII. A JavaScript number is modelled by an exact
  rational: the program only adds, subtracts, compares and floors numbers, which is exact on the
  integers a sales export holds. \<^verbatim>\<open>NaN\<close> is never produced by the cell decoders and behaves as
  \<open>0\<close> in every test the program applies to a cell (\<^verbatim>\<open>!x\<close>, \<^verbatim>\<open>x > 0\<close>).
\<close>

type_synonym cu = int
type_synonym jstring = "cu list"

definition ascii :: "string \<Rightarrow> jstring" where
  "ascii s = map of_char s"

text \<open>ECMAScript \<^verbatim>\<open>WhiteSpace\<close> and \<^verbatim>\<open>LineTerminator\<close>: what \<^verbatim>\<open>trim\<close> strips and \<^verbatim>\<open>\s\<close> matches.\<close>

definition isWhiteSpace :: "cu \<Rightarrow> bool" where
  "isWhiteSpace c =
     (c \<in> set [0x09, 0x0A, 0x0B, 0x0C, 0x0D, 0x20, 0xA0, 0x1680, 0x2028, 0x2029, 0x202F, 0x205F,
                0x3000, 0xFEFF]
      \<or> (0x2000 \<le> c \<and> c \<le> 0x200A))"

definition isLineTerminator :: "cu \<Rightarrow> bool" where
  "isLineTerminator c = (c \<in> set [0x0A, 0x0D, 0x2028, 0x2029])"

definition isDigit :: "cu \<Rightarrow> bool" where
  "isDigit c = (48 \<le> c \<and> c \<le> 57)"

definition isWordChar :: "cu \<Rightarrow> bool" where
  "isWordChar c = ((97 \<le> c \<and> c \<le> 122) \<or> (65 \<le> c \<and> c \<le> 90) \<or> isDigit c \<or> c = 95)"

text \<open>
  Built-ins of the platform that the program calls and that depend on the Unicode tables, the
  number formatter, the locale or the time zone are parameters of the model:
  \<^verbatim>\<open>String.prototype.toLowerCase\<close>, the conversion of a number to a string (\<^verbatim>\<open>String(n)\<close> and
  template literals), \<^verbatim>\<open>toLocaleString('ja-JP')\<close>, and the fields \<^verbatim>\<open>getMonth()\<close>,
  \<^verbatim>\<open>getDate()\<close>, \<^verbatim>\<open>getDay()\<close> of \<^verbatim>\<open>new Date(s)\<close> (\<open>None\<close> for an invalid date).
\<close>

record platform =
  toLowerCase :: "jstring \<Rightarrow> jstring"
  numToString :: "rat \<Rightarrow> jstring"
  toLocaleString :: "rat \<Rightarrow> jstring"
  dateFields :: "jstring \<Rightarrow> (nat \<times> nat \<times> nat) option"


section \<open>Regular expressions\<close>

text \<open>
  The constructs the program's regular expressions use. None of them has the \<^verbatim>\<open>u\<close>, \<^verbatim>\<open>m\<close> or
  \<^verbatim>\<open>s\<close> flag: \<^verbatim>\<open>.\<close> excludes line terminators, \<^verbatim>\<open>^\<close> and \<^verbatim>\<open>$\<close> are the ends of the input, \<^verbatim>\<open>\d\<close>
  and \<^verbatim>\<open>\b\<close> are ASCII. \<^verbatim>\<open>x+\<close> is \<open>Seq x (Star x)\<close>.
\<close>

datatype rx =
    Chr cu | AnyChar | Digit | Space | Bol | Eol | WordB | Eps
  | Seq rx rx | Alt rx rx | Opt rx | Star rx

text \<open>
  \<^verbatim>\<open>Canonicalize\<close> of the \<^verbatim>\<open>i\<close> flag without \<^verbatim>\<open>u\<close> maps a code unit to its upper case, unless
  that is not a single code unit or would turn a non-ASCII unit into an ASCII one. Every
  pattern character of the program is an ASCII letter or a caseless character (kana, kanji,
  brackets) that is the upper case of no other character, so only the ASCII letters fold.
\<close>

definition canon :: "cu \<Rightarrow> cu" where
  "canon c = (if 97 \<le> c \<and> c \<le> 122 then c - 32 else c)"

definition sameChar :: "bool \<Rightarrow> cu \<Rightarrow> cu \<Rightarrow> bool" where
  "sameChar ic c x = (if ic then canon c = canon x else c = x)"

text \<open>A position is the input already passed, reversed, and the input still ahead.\<close>

type_synonym pos = "jstring \<times> jstring"

definition step1 :: "(cu \<Rightarrow> bool) \<Rightarrow> pos \<Rightarrow> pos list" where
  "step1 ok p = (case snd p of [] \<Rightarrow> [] | x # xs \<Rightarrow> if ok x then [(x # fst p, xs)] else [])"

definition atWordBoundary :: "pos \<Rightarrow> bool" where
  "atWordBoundary p =
     ((case fst p of [] \<Rightarrow> False | c # _ \<Rightarrow> isWordChar c)
      \<noteq> (case snd p of [] \<Rightarrow> False | c # _ \<Rightarrow> isWordChar c))"

text \<open>
  Greedy iteration: one more round first, the current position last. A round that consumes
  nothing is rejected, as ECMAScript's \<^verbatim>\<open>RepeatMatcher\<close> does, so the number of rounds is at most
  the length of the input ahead.
\<close>

primrec star_iter :: "nat \<Rightarrow> (pos \<Rightarrow> pos list) \<Rightarrow> pos \<Rightarrow> pos list" where
  "star_iter 0 f p = [p]"
| "star_iter (Suc n) f p =
     concat (map (\<lambda>q. if length (snd q) < length (snd p) then star_iter n f q else []) (f p))
     @ [p]"

text \<open>
  \<open>ends ic r p\<close>: the positions at which a match of \<open>r\<close> started at \<open>p\<close> can end, in the order
  in which backtracking meets them. \<open>ic\<close> is the \<^verbatim>\<open>i\<close> flag.
\<close>

primrec ends :: "bool \<Rightarrow> rx \<Rightarrow> pos \<Rightarrow> pos list" where
  "ends ic (Chr c) = step1 (sameChar ic c)"
| "ends ic AnyChar = step1 (\<lambda>x. \<not> isLineTerminator x)"
| "ends ic Digit = step1 isDigit"
| "ends ic Space = step1 isWhiteSpace"
| "ends ic Bol = (\<lambda>p. if fst p = [] then [p] else [])"
| "ends ic Eol = (\<lambda>p. if snd p = [] then [p] else [])"
| "ends ic WordB = (\<lambda>p. if atWordBoundary p then [p] else [])"
| "ends ic Eps = (\<lambda>p. [p])"
| "ends ic (Seq a b) = (\<lambda>p. concat (map (ends ic b) (ends ic a p)))"
| "ends ic (Alt a b) = (\<lambda>p. ends ic a p @ ends ic b p)"
| "ends ic (Opt a) = (\<lambda>p. ends ic a p @ [p])"
| "ends ic (Star a) = (\<lambda>p. star_iter (length (snd p)) (ends ic a) p)"

text \<open>
  \<^verbatim>\<open>RegExp.prototype.exec\<close> without the \<^verbatim>\<open>g\<close> flag: the match is attempted at index 0, 1, ...
  of the input and the first success wins. The result is the start and the end position.
\<close>

fun scan :: "bool \<Rightarrow> rx \<Rightarrow> jstring \<Rightarrow> jstring \<Rightarrow> (pos \<times> pos) option" where
  "scan ic r b [] = (case ends ic r (b, []) of [] \<Rightarrow> None | q # _ \<Rightarrow> Some ((b, []), q))"
| "scan ic r b (x # xs) =
     (case ends ic r (b, x # xs) of [] \<Rightarrow> scan ic r (x # b) xs | q # _ \<Rightarrow> Some ((b, x # xs), q))"

definition re_test :: "bool \<Rightarrow> rx \<Rightarrow> jstring \<Rightarrow> bool" where
  "re_test ic r s = (scan ic r [] s \<noteq> None)"

text \<open>\<open>re_match\<close> is element 0 of the result of \<^verbatim>\<open>String.prototype.match\<close>: the matched text.\<close>

definition re_match :: "bool \<Rightarrow> rx \<Rightarrow> jstring \<Rightarrow> jstring option" where
  "re_match ic r s =
     (case scan ic r [] s of None \<Rightarrow> None
      | Some (p, q) \<Rightarrow> Some (take (length (snd p) - length (snd q)) (snd p)))"

text \<open>A literal word, a choice between several branches, and one or more repetitions.\<close>

definition lits :: "jstring \<Rightarrow> rx" where
  "lits w = foldr (\<lambda>c r. Seq (Chr c) r) w Eps"

definition alts :: "rx list \<Rightarrow> rx" where
  "alts rs = foldr Alt (butlast rs) (last rs)"

definition seqs :: "rx list \<Rightarrow> rx" where
  "seqs rs = foldr Seq rs Eps"

definition plus :: "rx \<Rightarrow> rx" where
  "plus r = Seq r (Star r)"


section \<open>Ramen variants\<close>

text \<open>
  \<^verbatim>\<open>RAMEN_KEYS\<close>, in the order of the source: hana U+82B1, tsuki U+6708, yuki U+96EA, gekka
  U+6708 U+82B1, setsugetsu U+96EA U+6708, setsugekka U+96EA U+6708 U+82B1, hana coffret
  U+82B1 U+3053 U+3075 U+308C, curry ramen U+30AB U+30EC U+30FC U+30E9 U+30FC U+30E1 U+30F3,
  hyouka U+6C37 U+82B1.
\<close>

datatype RamenKey =
    Hana | Tsuki | Yuki | Gekka | Setsugetsu | Setsugekka | HanaCoffret | CurryRamen | Hyouka

definition RAMEN_KEYS :: "RamenKey list" where
  "RAMEN_KEYS = [Hana, Tsuki, Yuki, Gekka, Setsugetsu, Setsugekka, HanaCoffret, CurryRamen, Hyouka]"

definition RAMEN_DISPLAY_ORDER :: "RamenKey list" where
  "RAMEN_DISPLAY_ORDER =
     [Yuki, Tsuki, Hana, Gekka, Setsugetsu, Setsugekka, HanaCoffret, CurryRamen, Hyouka]"

definition w_hana :: jstring where "w_hana = [0x82B1]"
definition w_tsuki :: jstring where "w_tsuki = [0x6708]"
definition w_yuki :: jstring where "w_yuki = [0x96EA]"
definition w_gekka :: jstring where "w_gekka = [0x6708, 0x82B1]"
definition w_setsugetsu :: jstring where "w_setsugetsu = [0x96EA, 0x6708]"
definition w_setsugekka :: jstring where "w_setsugekka = [0x96EA, 0x6708, 0x82B1]"
definition w_hyouka :: jstring where "w_hyouka = [0x6C37, 0x82B1]"
definition w_hanacoffret :: jstring where "w_hanacoffret = [0x82B1, 0x3053, 0x3075, 0x308C]"

text \<open>Katakana and hiragana words of the patterns: curry, ramen (both scripts), set, course.\<close>

definition w_curry :: jstring where "w_curry = [0x30AB, 0x30EC, 0x30FC]"
definition w_ramen :: jstring where "w_ramen = [0x30E9, 0x30FC, 0x30E1, 0x30F3]"
definition w_ramen_hira :: jstring where "w_ramen_hira = [0x3089, 0x30FC, 0x3081, 0x3093]"
definition w_men :: jstring where "w_men = [0x9EBA]"
definition w_set :: jstring where "w_set = [0x30BB, 0x30C3, 0x30C8]"
definition w_course :: jstring where "w_course = [0x30B3, 0x30FC, 0x30B9]"
definition w_tounyu :: jstring where "w_tounyu = [0x8C46, 0x4E73]"

text \<open>The corner brackets U+300C, U+300D and the white corner brackets U+300E, U+300F.\<close>

definition c_lbr :: cu where "c_lbr = 0x300C"
definition c_rbr :: cu where "c_rbr = 0x300D"
definition c_lwbr :: cu where "c_lwbr = 0x300E"
definition c_rwbr :: cu where "c_rwbr = 0x300F"

text \<open>The nine patterns of \<^verbatim>\<open>guessRamenKey\<close>, lines 133 to 141, each with the \<^verbatim>\<open>i\<close> flag.\<close>

definition rx_setsugekka :: rx where
  "rx_setsugekka = Alt (lits w_setsugekka) (lits (ascii ''setsugekka''))"

definition rx_setsugetsu :: rx where
  "rx_setsugetsu = Alt (lits w_setsugetsu) (lits (ascii ''setsugetsu''))"

definition rx_gekka :: rx where
  "rx_gekka = Alt (lits w_gekka) (lits (ascii ''gekka''))"

definition rx_hyouka :: rx where
  "rx_hyouka =
     alts [lits w_hyouka, lits (ascii ''hyouka''), lits (ascii ''hyoka''),
           seqs [lits (ascii ''ice''), Star Space, lits (ascii ''hana'')]]"

definition rx_hanacoffret :: rx where
  "rx_hanacoffret =
     alts [lits w_hanacoffret,
           seqs [lits (ascii ''hana''), Star Space, lits (ascii ''co''), plus (Chr 102),
                 lits (ascii ''ret'')],
           seqs [lits (ascii ''hana''), Star Space, lits (ascii ''coffret'')]]"

definition rx_curryramen :: rx where
  "rx_curryramen =
     seqs [Alt (lits w_curry) (lits (ascii ''curry'')), Star AnyChar,
           alts [lits w_ramen, lits w_ramen_hira, lits (ascii ''ramen'')]]"

definition rx_hana :: rx where
  "rx_hana =
     alts [seqs [lits w_tounyu, lits w_ramen, Opt (Chr c_lbr), lits w_hana],
           seqs [Alt Bol Space, lits w_hana, Alt (Chr c_rbr) Eol],
           seqs [WordB, lits (ascii ''hana''), WordB]]"

definition rx_tsuki :: rx where
  "rx_tsuki =
     Alt (seqs [alts [Chr c_lbr, Bol, Space], lits w_tsuki, Alt (Chr c_rbr) Eol])
         (seqs [WordB, lits (ascii ''tsuki''), WordB])"

definition rx_yuki :: rx where
  "rx_yuki =
     Alt (seqs [alts [Chr c_lbr, Bol, Space], lits w_yuki, Alt (Chr c_rbr) Eol])
         (seqs [WordB, lits (ascii ''yuki''), WordB])"

definition guessRamenKey :: "jstring \<Rightarrow> RamenKey option" where
  "guessRamenKey name =
     (if re_test True rx_setsugekka name then Some Setsugekka
      else if re_test True rx_setsugetsu name then Some Setsugetsu
      else if re_test True rx_gekka name then Some Gekka
      else if re_test True rx_hyouka name then Some Hyouka
      else if re_test True rx_hanacoffret name then Some HanaCoffret
      else if re_test True rx_curryramen name then Some CurryRamen
      else if re_test True rx_hana name then Some Hana
      else if re_test True rx_tsuki name then Some Tsuki
      else if re_test True rx_yuki name then Some Yuki
      else None)"


section \<open>Text normalizer and field resolver\<close>

text \<open>
  A cell of a decoded row is \<^verbatim>\<open>null\<close> or \<^verbatim>\<open>undefined\<close>, a number, or a string. The program
  reads any other value only through \<^verbatim>\<open>String(v)\<close>, so \<open>CStr\<close> stands for it too. A row is the
  list of its entries in the order of \<^verbatim>\<open>Object.keys\<close>.
\<close>

datatype cell = CNull | CNum rat | CStr jstring

type_synonym row = "(jstring \<times> cell) list"

definition row_get :: "row \<Rightarrow> jstring \<Rightarrow> cell" where
  "row_get r k = (case map_of r k of None \<Rightarrow> CNull | Some v \<Rightarrow> v)"

definition trim :: "jstring \<Rightarrow> jstring" where
  "trim s = rev (dropWhile isWhiteSpace (rev (dropWhile isWhiteSpace s)))"

text \<open>\<^verbatim>\<open>norm\<close>, line 95: the no-break space U+00A0 becomes a space, then trim, then lower case.\<close>

definition norm_str :: "platform \<Rightarrow> jstring \<Rightarrow> jstring" where
  "norm_str P s = toLowerCase P (trim (map (\<lambda>c. if c = 0xA0 then 0x20 else c) s))"

text \<open>
  \<^verbatim>\<open>toNum\<close>, lines 96 to 102. The pattern is \<^verbatim>\<open>/-?\d+(\.\d+)?/\<close>; \<open>js_Number\<close> is \<^verbatim>\<open>Number\<close> on a
  text of that shape: an optional minus sign, digits, and optionally a point and digits.
\<close>

definition rx_number :: rx where
  "rx_number = seqs [Opt (Chr 45), plus Digit, Opt (Seq (Chr 46) (plus Digit))]"

definition digitsVal :: "jstring \<Rightarrow> int" where
  "digitsVal ds = foldl (\<lambda>a c. 10 * a + (c - 48)) 0 ds"

definition js_Number :: "jstring \<Rightarrow> rat" where
  "js_Number m =
     (let neg = (take 1 m = [45]);
          body = (if neg then tl m else m);
          ip = takeWhile isDigit body;
          fp = drop (Suc (length ip)) body;
          v = of_int (digitsVal ip) + of_int (digitsVal fp) / 10 ^ length fp
      in if neg then - v else v)"

definition toNum :: "cell \<Rightarrow> rat" where
  "toNum v =
     (case v of
        CNull \<Rightarrow> 0
      | CNum n \<Rightarrow> n
      | CStr s \<Rightarrow>
          (case re_match False rx_number (filter (\<lambda>c. \<not> (c = 44 \<or> isWhiteSpace c)) s) of
             None \<Rightarrow> 0
           | Some m \<Rightarrow> js_Number m))"

text \<open>\<^verbatim>\<open>String(v ?? '')\<close>, as \<^verbatim>\<open>firstKeyStr\<close> applies it to a cell.\<close>

definition cellText :: "platform \<Rightarrow> cell \<Rightarrow> jstring" where
  "cellText P v = (case v of CNull \<Rightarrow> [] | CNum n \<Rightarrow> numToString P n | CStr s \<Rightarrow> s)"

text \<open>
  \<^verbatim>\<open>firstByCandidates\<close> and \<^verbatim>\<open>firstKeyStr\<close>, lines 103 to 118. \<^verbatim>\<open>if (hit)\<close> rejects the empty
  key, which is falsy.
\<close>

fun firstByCandidates :: "platform \<Rightarrow> row \<Rightarrow> jstring list \<Rightarrow> rat" where
  "firstByCandidates P r [] = 0"
| "firstByCandidates P r (cand # cands) =
     (case find (\<lambda>k. norm_str P k = norm_str P cand) (map fst r) of
        None \<Rightarrow> firstByCandidates P r cands
      | Some hit \<Rightarrow> if hit = [] then firstByCandidates P r cands else toNum (row_get r hit))"

fun firstKeyStr :: "platform \<Rightarrow> row \<Rightarrow> jstring list \<Rightarrow> jstring" where
  "firstKeyStr P r [] = []"
| "firstKeyStr P r (cand # cands) =
     (case find (\<lambda>k. norm_str P k = norm_str P cand) (map fst r) of
        None \<Rightarrow> firstKeyStr P r cands
      | Some hit \<Rightarrow> if hit = [] then firstKeyStr P r cands else cellText P (row_get r hit))"


section \<open>Payment classifier\<close>

datatype PaymentKey = Total | Card | Tablecheck | Paypay | Cash | Funfo

definition PAYMENT_KEY_ORDER :: "PaymentKey list" where
  "PAYMENT_KEY_ORDER = [Total, Card, Tablecheck, Paypay, Cash, Funfo]"

text \<open>\<^verbatim>\<open>PAYMENT_LABELS\<close>, lines 50 to 57.\<close>

fun PAYMENT_LABELS :: "PaymentKey \<Rightarrow> jstring" where
  "PAYMENT_LABELS Total = [0x58F2, 0x4E0A]"
| "PAYMENT_LABELS Card =
     [0x30AF, 0x30EC, 0x30B8, 0x30C3, 0x30C8, 0x30FB] @ ascii ''IC'' @ [0xFF08] @ ascii ''Square''
     @ [0xFF09]"
| "PAYMENT_LABELS Tablecheck = ascii ''Table check''"
| "PAYMENT_LABELS Paypay = ascii ''PayPay''"
| "PAYMENT_LABELS Cash = [0x73FE, 0x91D1]"
| "PAYMENT_LABELS Funfo = ascii ''Funfo''"

text \<open>
  \<^verbatim>\<open>PAYMENT_ALIASES\<close>, lines 60 to 67. The aliases of \<open>Total\<close> are the tax-included sales
  headers, in priority order.
\<close>

definition PAYMENT_ALIASES_total :: "jstring list" where
  "PAYMENT_ALIASES_total =
     [[0x58F2, 0x4E0A, 0x9AD8, 0xFF08, 0x7A0E, 0x8FBC, 0x307F, 0xFF09],
      [0x58F2, 0x4E0A, 0x9AD8] @ ascii '' ('' @ [0x7A0E, 0x8FBC, 0x307F] @ ascii '')'',
      [0x58F2, 0x4E0A, 0x9AD8] @ ascii '' ('' @ [0x7A0E, 0x8FBC] @ ascii '')'',
      [0x7A0E, 0x8FBC, 0x307F, 0x58F2, 0x4E0A, 0x9AD8],
      [0x7A0E, 0x8FBC, 0x58F2, 0x4E0A]]"

definition PAYMENT_ALIASES_card :: "jstring list" where
  "PAYMENT_ALIASES_card =
     [ascii ''Square'',
      ascii ''square'',
      [0x30AF, 0x30EC, 0x30B8, 0x30C3, 0x30C8, 0x30FB] @ ascii ''IC'',
      [0x30AF, 0x30EC, 0x30B8, 0x30C3, 0x30C8, 0x30FB] @ ascii ''IC'' @ [0xFF08] @ ascii ''Square'' @ [0xFF09],
      [0x30AF, 0x30EC, 0x30B8, 0x30C3, 0x30C8, 0xFF65] @ ascii ''IC'']"

definition PAYMENT_ALIASES_tablecheck :: "jstring list" where
  "PAYMENT_ALIASES_tablecheck =
     [ascii ''Table check'',
      ascii ''TableCheck'',
      [0x30C6, 0x30FC, 0x30D6, 0x30EB, 0x30C1, 0x30A7, 0x30C3, 0x30AF]]"

definition PAYMENT_ALIASES_paypay :: "jstring list" where
  "PAYMENT_ALIASES_paypay =
     [ascii ''PayPay'',
      ascii ''paypay'',
      ascii ''Pay Pay'']"

definition PAYMENT_ALIASES_cash :: "jstring list" where
  "PAYMENT_ALIASES_cash =
     [[0x73FE, 0x91D1],
      ascii ''cash'',
      ascii ''Cash'',
      ascii ''CASH'']"

definition PAYMENT_ALIASES_funfo :: "jstring list" where
  "PAYMENT_ALIASES_funfo =
     [ascii ''Funfo'',
      ascii ''fnfo'',
      ascii ''FNFO'',
      ascii ''Fnfo'']"

fun PAYMENT_ALIASES :: "PaymentKey \<Rightarrow> jstring list" where
  "PAYMENT_ALIASES Total = PAYMENT_ALIASES_total"
| "PAYMENT_ALIASES Card = PAYMENT_ALIASES_card"
| "PAYMENT_ALIASES Tablecheck = PAYMENT_ALIASES_tablecheck"
| "PAYMENT_ALIASES Paypay = PAYMENT_ALIASES_paypay"
| "PAYMENT_ALIASES Cash = PAYMENT_ALIASES_cash"
| "PAYMENT_ALIASES Funfo = PAYMENT_ALIASES_funfo"

text \<open>\<^verbatim>\<open>EXTRA_PAYMENT_IGNORE\<close>, lines 69 to 72, and the candidate headers, lines 75 to 79.\<close>

definition EXTRA_PAYMENT_IGNORE :: "jstring list" where
  "EXTRA_PAYMENT_IGNORE =
     [[0x4F1A, 0x8A08, 0x6570],
      [0x7D44, 0x6570],
      ascii ''groups'',
      ascii ''group count'',
      [0x5BA2, 0x6570],
      [0x6765, 0x5BA2, 0x6570],
      [0x4EBA, 0x6570],
      ascii ''customers'']"

definition PRODUCT_NAME_CANDS :: "jstring list" where
  "PRODUCT_NAME_CANDS =
     [[0x5546, 0x54C1, 0x540D],
      [0x54C1, 0x540D],
      [0x30E1, 0x30CB, 0x30E5, 0x30FC],
      [0x5546, 0x54C1],
      ascii ''Item Name'',
      ascii ''item'',
      ascii ''name'']"

definition PRODUCT_QTY_CANDS :: "jstring list" where
  "PRODUCT_QTY_CANDS =
     [[0x5546, 0x54C1, 0x8CA9, 0x58F2, 0x6570],
      [0x8CA9, 0x58F2, 0x6570],
      [0x6570, 0x91CF],
      [0x500B, 0x6570],
      ascii ''Quantity'',
      ascii ''Qty'']"

definition PRODUCT_CATEGORY_CANDS :: "jstring list" where
  "PRODUCT_CATEGORY_CANDS =
     [[0x30AB, 0x30C6, 0x30B4, 0x30EA],
      [0x30AB, 0x30C6, 0x30B4, 0x30EA, 0x30FC],
      ascii ''category'',
      ascii ''Category'']"

definition GROUP_CANDS :: "jstring list" where
  "GROUP_CANDS =
     [[0x4F1A, 0x8A08, 0x6570],
      [0x7D44, 0x6570],
      ascii ''groups'',
      ascii ''group count'']"

definition PEOPLE_CANDS :: "jstring list" where
  "PEOPLE_CANDS =
     [[0x5BA2, 0x6570],
      [0x6765, 0x5BA2, 0x6570],
      [0x4EBA, 0x6570],
      ascii ''customers'']"

text \<open>
  The headers listed inline at lines 400 to 418: the period, pre-discount, tax-excluded and
  tax-exempt sales, the tax breakdowns, the averages per bill and per guest, the quantity sold
  and the discount columns.
\<close>

definition IGNORE_INLINE :: "jstring list" where
  "IGNORE_INLINE =
     [[0x96C6, 0x8A08, 0x671F, 0x9593],
      [0x5272, 0x5F15, 0x524D] @ ascii '' '' @ [0x58F2, 0x4E0A, 0x9AD8],
      [0x58F2, 0x4E0A, 0x9AD8, 0xFF08, 0x7A0E, 0x629C, 0x304D, 0xFF09],
      [0x58F2, 0x4E0A, 0x9AD8, 0xFF08, 0x975E, 0x8AB2, 0x7A0E, 0xFF09],
      [0x5185, 0x6D88, 0x8CBB, 0x7A0E, 0xFF08, 0x5408, 0x8A08, 0xFF09],
      [0x5185, 0x6D88, 0x8CBB, 0x7A0E, 0xFF08] @ ascii ''10%'' @ [0x6A19, 0x6E96, 0xFF09],
      [0x5185, 0x6D88, 0x8CBB, 0x7A0E, 0xFF08] @ ascii ''8%'' @ [0x8EFD, 0x6E1B, 0xFF09],
      [0x58F2, 0x4E0A, 0x9AD8, 0xFF08] @ ascii ''10%'' @ [0x6A19, 0x6E96, 0xFF09],
      [0x58F2, 0x4E0A, 0x9AD8, 0xFF08] @ ascii ''8%'' @ [0x8EFD, 0x6E1B, 0xFF09],
      [0x4F1A, 0x8A08, 0x5358, 0x4FA1],
      [0x5BA2, 0x5358, 0x4FA1],
      [0x5546, 0x54C1, 0x8CA9, 0x58F2, 0x6570],
      [0x5272, 0x5F15, 0x5408, 0x8A08] @ ascii ''_1'',
      [0x4F1A, 0x8A08, 0x5272, 0x5F15],
      [0x5272, 0x5F15, 0x5408, 0x8A08],
      [0x5272, 0x5F15]]"

text \<open>
  \<^verbatim>\<open>buildPaymentAliasMap\<close>, lines 152 to 158. A JavaScript \<^verbatim>\<open>Map\<close> keeps a key at the place of
  its first insertion and overwrites its value, which is what \<open>AList.update\<close> does.
\<close>

definition buildPaymentAliasMap :: "platform \<Rightarrow> (jstring \<times> PaymentKey) list" where
  "buildPaymentAliasMap P =
     fold (\<lambda>key m. fold (\<lambda>alias. AList.update (norm_str P alias) key) (PAYMENT_ALIASES key) m)
       PAYMENT_KEY_ORDER []"

text \<open>
  \<^verbatim>\<open>ignoreSet\<close>, lines 396 to 418, as the list of the strings added to it; only membership is
  ever asked of it.
\<close>

definition ignoreSet :: "platform \<Rightarrow> jstring list" where
  "ignoreSet P =
     map fst (buildPaymentAliasMap P)
     @ map (\<lambda>k. norm_str P (PAYMENT_LABELS k)) PAYMENT_KEY_ORDER
     @ map (norm_str P) EXTRA_PAYMENT_IGNORE
     @ map (norm_str P) IGNORE_INLINE"

record OtherPayment =
  op_label :: jstring
  op_amount :: rat

record payAcc =
  acc_payments :: "PaymentKey \<Rightarrow> rat"
  acc_otherPayments :: "OtherPayment list"

text \<open>The body of the loop over \<^verbatim>\<open>Object.entries(dayRow)\<close>, lines 421 to 433.\<close>

definition payStep :: "platform \<Rightarrow> jstring \<times> cell \<Rightarrow> payAcc \<Rightarrow> payAcc" where
  "payStep P e acc =
     (let rawKey = fst e;
          amount = toNum (snd e)
      in if amount = 0 then acc
         else
           let nk = norm_str P rawKey;
               pkey = map_of (buildPaymentAliasMap P) nk
           in if pkey \<noteq> None \<and> pkey \<noteq> Some Total
              then acc\<lparr>acc_payments :=
                         (acc_payments acc)(the pkey := acc_payments acc (the pkey) + amount)\<rparr>
              else if nk \<in> set (ignoreSet P) then acc
              else acc\<lparr>acc_otherPayments :=
                         acc_otherPayments acc @ [\<lparr>op_label = rawKey, op_amount = amount\<rparr>]\<rparr>)"

text \<open>\<^verbatim>\<open>pickFirst\<close>, lines 436 and 437.\<close>

definition pickFirst :: "platform \<Rightarrow> row \<Rightarrow> jstring list \<Rightarrow> rat" where
  "pickFirst P r cands =
     (case find (\<lambda>v. v > 0) (map (\<lambda>c. firstByCandidates P r [c]) cands) of
        None \<Rightarrow> 0
      | Some v \<Rightarrow> v)"

text \<open>Lines 392 to 439: the payments and the other payments of the day's row.\<close>

definition classifyPayments :: "platform \<Rightarrow> row \<Rightarrow> payAcc" where
  "classifyPayments P dayRow =
     (let acc = fold (payStep P) dayRow \<lparr>acc_payments = (\<lambda>k. 0), acc_otherPayments = []\<rparr>;
          fixedTotal = pickFirst P dayRow (PAYMENT_ALIASES Total)
      in if fixedTotal \<noteq> 0 then acc\<lparr>acc_payments := (acc_payments acc)(Total := fixedTotal)\<rparr>
         else acc)"


section \<open>Product classifier\<close>

text \<open>
  The words of the remaining patterns: yokubari U+3088 U+304F U+3070 U+308A, patty in full-width
  and half-width katakana, curry in half-width katakana, reservation menu, reservation, dinner,
  crowdfunding, and the counter for people U+540D.
\<close>

definition w_yokubari :: jstring where "w_yokubari = [0x3088, 0x304F, 0x3070, 0x308A]"
definition w_patty :: jstring where "w_patty = [0x30D1, 0x30C6, 0x30A3]"
definition w_patty_half :: jstring where "w_patty_half = [0xFF8A, 0xFF9F, 0xFF83, 0xFF68]"
definition w_curry_half :: jstring where "w_curry_half = [0xFF76, 0xFF9A, 0xFF70]"
definition w_yoyaku_menu :: jstring where
  "w_yoyaku_menu = [0x4E88, 0x7D04, 0x30E1, 0x30CB, 0x30E5, 0x30FC]"
definition w_yoyaku :: jstring where "w_yoyaku = [0x4E88, 0x7D04]"
definition w_dinner :: jstring where "w_dinner = [0x30C7, 0x30A3, 0x30CA, 0x30FC]"
definition w_crowdfund :: jstring where "w_crowdfund = [0x30AF, 0x30E9, 0x30D5, 0x30A1, 0x30F3]"
definition c_mei :: cu where "c_mei = 0x540D"

text \<open>Lines 82 to 93. \<^verbatim>\<open>\d{4,5}\<close> is four digits and an optional fifth.\<close>

definition DINNER_PATTERN :: rx where
  "DINNER_PATTERN = Alt (lits w_dinner) (lits (ascii ''dinner''))"

definition CROWDFUND_PATTERN :: rx where
  "CROWDFUND_PATTERN = lits w_crowdfund"

definition NAME_PEOPLE_PATTERN :: rx where
  "NAME_PEOPLE_PATTERN = Seq (plus Digit) (Chr c_mei)"

definition PRICE_PATTERN :: rx where
  "PRICE_PATTERN = seqs [Digit, Digit, Digit, Digit, Opt Digit]"

definition FORCE_AMBIG_SET_HANA_GEKKA :: rx where
  "FORCE_AMBIG_SET_HANA_GEKKA =
     seqs [lits w_ramen, Star AnyChar,
           Opt (Alt (Chr c_lbr) (Chr c_lwbr)), lits w_hana, Opt (Alt (Chr c_rbr) (Chr c_rwbr)),
           Star Space, lits (ascii ''or''), Star Space,
           Opt (Alt (Chr c_lbr) (Chr c_lwbr)), lits w_gekka, Opt (Alt (Chr c_rbr) (Chr c_rwbr)),
           Star AnyChar, lits w_set]"

definition EXCLUDED_PRODUCT_REGEXPS :: "rx list" where
  "EXCLUDED_PRODUCT_REGEXPS = [seqs [lits w_gekka, Star AnyChar, lits w_course]]"

text \<open>Lines 128 to 130.\<close>

definition isRamenish :: "jstring \<Rightarrow> bool" where
  "isRamenish name =
     re_test True (alts [lits w_ramen, lits w_ramen_hira, lits w_men, lits (ascii ''ramen'')]) name"

definition isYokubariCurry :: "jstring \<Rightarrow> bool" where
  "isYokubariCurry name = re_test True (seqs [lits w_yokubari, Star AnyChar, lits w_curry]) name"

definition isPattyCurry :: "jstring \<Rightarrow> bool" where
  "isPattyCurry name =
     re_test True
       (seqs [Alt (lits w_patty) (lits w_patty_half), Star AnyChar,
              Alt (lits w_curry) (lits w_curry_half)]) name"

text \<open>The patterns written inline in the loop, lines 481, 491 and 506.\<close>

definition rx_set_marker :: rx where
  "rx_set_marker = Alt (lits w_set) (lits (ascii ''set''))"

definition rx_course_name :: rx where
  "rx_course_name = Alt (lits w_course) (lits (ascii ''course''))"

definition rx_course_category :: rx where
  "rx_course_category =
     alts [lits w_yoyaku_menu, lits w_yoyaku, lits w_course, lits (ascii ''course'')]"

definition rx_isSet_name :: rx where
  "rx_isSet_name = Alt (lits w_set) (Seq (lits (ascii ''set'')) WordB)"

definition isCourse :: "jstring \<Rightarrow> jstring \<Rightarrow> bool" where
  "isCourse name category =
     (re_test True rx_course_name name \<or> re_test True rx_course_category category)"

definition isSet :: "jstring \<Rightarrow> jstring \<Rightarrow> bool" where
  "isSet name category = (re_test True rx_isSet_name name \<or> re_test True (lits w_set) category)"

record UnassignedItem =
  u_name :: jstring
  u_count :: rat

record CoursePeopleEntry =
  cp_label :: jstring
  cp_price :: rat
  cp_count :: rat

type_synonym Totals = "RamenKey \<Rightarrow> rat"

definition makeEmptyTotals :: Totals where
  "makeEmptyTotals = (\<lambda>k. 0)"

text \<open>The local variables of the loop over the product rows, lines 460 to 466.\<close>

record prodAcc =
  localTotals :: Totals
  localSetTotals :: Totals
  localCourseTotals :: Totals
  ambiguous :: "UnassignedItem list"
  coursePeople :: "CoursePeopleEntry list"
  localYokubariCurry :: rat
  localPattyCurry :: rat

definition emptyProdAcc :: prodAcc where
  "emptyProdAcc =
     \<lparr>localTotals = makeEmptyTotals, localSetTotals = makeEmptyTotals,
      localCourseTotals = makeEmptyTotals, ambiguous = [], coursePeople = [],
      localYokubariCurry = 0, localPattyCurry = 0\<rparr>"

text \<open>
  The course entry of lines 493 to 500. Group 1 of \<^verbatim>\<open>PRICE_PATTERN\<close> is the whole match; group 1
  of \<^verbatim>\<open>NAME_PEOPLE_PATTERN\<close> is the match without its last character, the counter.
\<close>

definition courseEntry :: "jstring \<Rightarrow> rat \<Rightarrow> CoursePeopleEntry" where
  "courseEntry name count =
     (let price = (case re_match False PRICE_PATTERN name of
                     None \<Rightarrow> 0 | Some m \<Rightarrow> js_Number m);
          peopleCount = (case re_match False NAME_PEOPLE_PATTERN name of
                           None \<Rightarrow> count | Some m \<Rightarrow> js_Number (butlast m));
          label = (if re_test True DINNER_PATTERN name then w_dinner
                   else if re_test True CROWDFUND_PATTERN name then w_crowdfund @ w_course
                   else w_course)
      in \<lparr>cp_label = label, cp_price = price, cp_count = peopleCount\<rparr>)"

text \<open>
  The classification of one row once its name, quantity and category are resolved: lines 475
  to 514, in the order of the source.
\<close>

definition classifyProduct :: "jstring \<Rightarrow> rat \<Rightarrow> jstring \<Rightarrow> prodAcc \<Rightarrow> prodAcc" where
  "classifyProduct name count category acc =
     (if list_ex (\<lambda>rx. re_test True rx name) EXCLUDED_PRODUCT_REGEXPS then acc
      else if re_test True FORCE_AMBIG_SET_HANA_GEKKA name \<and> re_test True rx_set_marker name
      then acc\<lparr>ambiguous := ambiguous acc @ [\<lparr>u_name = name, u_count = count\<rparr>]\<rparr>
      else if isYokubariCurry name
      then acc\<lparr>localYokubariCurry := localYokubariCurry acc + count\<rparr>
      else if isPattyCurry name
      then acc\<lparr>localPattyCurry := localPattyCurry acc + count\<rparr>
      else if isCourse name category
      then acc\<lparr>coursePeople := coursePeople acc @ [courseEntry name count]\<rparr>
      else
        (case guessRamenKey name of
           Some guessed \<Rightarrow>
             if isSet name category
             then acc\<lparr>localSetTotals :=
                        (localSetTotals acc)(guessed := localSetTotals acc guessed + count)\<rparr>
             else acc\<lparr>localTotals :=
                        (localTotals acc)(guessed := localTotals acc guessed + count)\<rparr>
         | None \<Rightarrow>
             if isRamenish name
             then acc\<lparr>ambiguous := ambiguous acc @ [\<lparr>u_name = name, u_count = count\<rparr>]\<rparr>
             else acc))"

text \<open>The body of the loop, lines 468 to 515: \<^verbatim>\<open>if (!count) continue\<close> comes first.\<close>

definition productStep :: "platform \<Rightarrow> row \<Rightarrow> prodAcc \<Rightarrow> prodAcc" where
  "productStep P r acc =
     (let name = firstKeyStr P r PRODUCT_NAME_CANDS;
          count = firstByCandidates P r PRODUCT_QTY_CANDS
      in if count = 0 then acc
         else classifyProduct name count (firstKeyStr P r PRODUCT_CATEGORY_CANDS) acc)"

definition classifyProducts :: "platform \<Rightarrow> row list \<Rightarrow> prodAcc" where
  "classifyProducts P productRows = fold (productStep P) productRows emptyProdAcc"


section \<open>Report state and the classification run\<close>

record PickedFile =
  uri :: jstring
  fname :: "jstring option"
  ftype :: "jstring option"

record MetaState =
  dateISO :: jstring
  payments :: "PaymentKey \<Rightarrow> rat"
  otherPayments :: "OtherPayment list"
  groups :: rat
  people :: rat
  yokubariCurry :: rat
  pattyCurry :: rat

text \<open>The state variables of the component, lines 325 to 340.\<close>

record State =
  productFile :: "PickedFile option"
  statsFile :: "PickedFile option"
  unassigned :: "UnassignedItem list"
  ramenTotals :: Totals
  ramenSetTotals :: Totals
  ramenCourseTotals :: Totals
  coursePeopleEntries :: "CoursePeopleEntry list"
  meta :: MetaState

text \<open>\<^verbatim>\<open>Alert.alert(title, message)\<close>: what the operator is shown.\<close>

datatype alert = Alert jstring jstring

definition msg_error :: jstring where
  "msg_error = [0x30A8, 0x30E9, 0x30FC]"

definition msg_no_rows :: jstring where
  "msg_no_rows =
     [0x58F2, 0x4E0A, 0x8A73, 0x7D30] @ ascii ''CSV''
     @ [0x306B, 0x884C, 0x304C, 0x3042, 0x308A, 0x307E, 0x305B, 0x3093, 0x3002]"

definition msg_missing :: jstring where
  "msg_missing = [0x4E0D, 0x8DB3]"

definition msg_pick_both :: jstring where
  "msg_pick_both =
     [0x300C, 0x5546, 0x54C1, 0x5225] @ ascii '' CSV/Excel''
     @ [0x300D, 0x3068, 0x300C, 0x652F, 0x6255, 0x65B9, 0x6CD5, 0x5225] @ ascii '' CSV/Excel''
     @ [0x300D, 0x3092, 0x4E21, 0x65B9, 0x9078, 0x3093, 0x3067, 0x304F, 0x3060, 0x3055, 0x3044,
        0x3002]"

definition msg_none_unassigned :: jstring where
  "msg_none_unassigned = [0x672A, 0x632F, 0x308A, 0x5206, 0x3051, 0x306A, 0x3057]"

definition msg_nothing_to_assign :: jstring where
  "msg_nothing_to_assign =
     [0x632F, 0x308A, 0x5206, 0x3051, 0x5019, 0x88DC, 0x306E, 0x9805, 0x76EE, 0x306F, 0x3042,
      0x308A, 0x307E, 0x305B, 0x3093, 0x3002]"

text \<open>
  \<^verbatim>\<open>makeSummary\<close>, lines 375 to 535. Reading a file and decoding it into rows belongs to the
  platform: \<open>reader\<close> gives the rows of a file, or \<open>Inl\<close> the message of the error it throws.
  The date of lines 446 to 457 is taken from the period column, the file names or the clock; it
  enters as \<open>resolveDate\<close>, a function of the day's row and the two files. Every exception is
  caught at line 531 and shown as an alert; the setters of lines 517 to 530 run only when none
  was thrown.
\<close>

definition makeSummary ::
  "platform \<Rightarrow> (PickedFile \<Rightarrow> jstring + row list) \<Rightarrow> (row \<Rightarrow> PickedFile \<Rightarrow> PickedFile \<Rightarrow> jstring)
   \<Rightarrow> State \<Rightarrow> alert option \<times> State" where
  "makeSummary P reader resolveDate st =
     (case (productFile st, statsFile st) of
        (Some pf, Some sf) \<Rightarrow>
          (case (reader pf, reader sf) of
             (Inr productRows, Inr statsRows) \<Rightarrow>
               (case statsRows of
                  [] \<Rightarrow> (Some (Alert msg_error msg_no_rows), st)
                | dayRow # _ \<Rightarrow>
                    let pay = classifyPayments P dayRow;
                        acc = classifyProducts P productRows
                    in (None,
                        st\<lparr>ramenTotals := localTotals acc,
                           ramenSetTotals := localSetTotals acc,
                           ramenCourseTotals := localCourseTotals acc,
                           coursePeopleEntries := coursePeople acc,
                           unassigned := ambiguous acc,
                           meta := \<lparr>dateISO = resolveDate dayRow sf pf,
                                    payments = acc_payments pay,
                                    otherPayments = acc_otherPayments pay,
                                    groups = firstByCandidates P dayRow GROUP_CANDS,
                                    people = firstByCandidates P dayRow PEOPLE_CANDS,
                                    yokubariCurry = localYokubariCurry acc,
                                    pattyCurry = localPattyCurry acc\<rparr>\<rparr>))
           | (Inl e, _) \<Rightarrow> (Some (Alert msg_error e), st)
           | (Inr _, Inl e) \<Rightarrow> (Some (Alert msg_error e), st))
      | _ \<Rightarrow> (Some (Alert msg_missing msg_pick_both), st))"


section \<open>Manual reassignment\<close>

text \<open>
  The handlers update the state through the setters of the component. Actions are applied one
  at a time, each updater to the state the action before it left, so a handler is a function
  from the state to the next state.
\<close>

text \<open>\<^verbatim>\<open>assignAllUnassignedToHanaSet\<close>, lines 537 to 545.\<close>

definition assignAllUnassignedToHanaSet :: "State \<Rightarrow> alert option \<times> State" where
  "assignAllUnassignedToHanaSet st =
     (if unassigned st = [] then (Some (Alert msg_none_unassigned msg_nothing_to_assign), st)
      else
        let addCount = foldl (\<lambda>s it. s + u_count it) 0 (unassigned st)
        in (None,
            st\<lparr>ramenSetTotals := (ramenSetTotals st)(Hana := ramenSetTotals st Hana + addCount),
               unassigned := []\<rparr>))"

text \<open>
  The optional argument \<^verbatim>\<open>amount?: number\<close>: left out, a finite number, or one of \<^verbatim>\<open>NaN\<close>,
  \<^verbatim>\<open>Infinity\<close>, \<^verbatim>\<open>-Infinity\<close>, which \<^verbatim>\<open>Number.isFinite\<close> rejects.
\<close>

datatype amountArg = Omitted | Amount rat | NaN | PosInfinity | NegInfinity

text \<open>\<^verbatim>\<open>next[index]\<close>: \<^verbatim>\<open>undefined\<close> outside the array.\<close>

definition itemAt :: "'a list \<Rightarrow> int \<Rightarrow> 'a option" where
  "itemAt xs i = (if 0 \<le> i \<and> nat i < length xs then Some (xs ! nat i) else None)"

text \<open>Lines 552 to 554 and 575 to 577: the quantity to move.\<close>

definition moveQty :: "UnassignedItem \<Rightarrow> amountArg \<Rightarrow> rat" where
  "moveQty item amount =
     (let requested = (case amount of Omitted \<Rightarrow> Amount (u_count item) | a \<Rightarrow> a);
          numeric = (case requested of Amount r \<Rightarrow> of_int \<lfloor>r\<rfloor> | _ \<Rightarrow> u_count item)
      in max 0 (min numeric (u_count item)))"

text \<open>Lines 563 and 564: \<^verbatim>\<open>splice(index, 1)\<close>, or the item with its count reduced.\<close>

definition takeFrom :: "UnassignedItem list \<Rightarrow> int \<Rightarrow> UnassignedItem \<Rightarrow> rat \<Rightarrow> UnassignedItem list" where
  "takeFrom xs index item qty =
     (if qty \<ge> u_count item then take (nat index) xs @ drop (Suc (nat index)) xs
      else xs[nat index := item\<lparr>u_count := u_count item - qty\<rparr>])"

text \<open>\<^verbatim>\<open>applyAssign\<close>, lines 547 to 567, and \<^verbatim>\<open>applyAssignCourse\<close>, lines 570 to 586.\<close>

definition applyAssign :: "int \<Rightarrow> RamenKey \<Rightarrow> bool \<Rightarrow> amountArg \<Rightarrow> State \<Rightarrow> State" where
  "applyAssign index key asSet amount st =
     (case itemAt (unassigned st) index of
        None \<Rightarrow> st
      | Some item \<Rightarrow>
          let qty = moveQty item amount
          in if qty \<le> 0 then st
             else
               let st' = (if asSet
                          then st\<lparr>ramenSetTotals :=
                                    (ramenSetTotals st)(key := ramenSetTotals st key + qty)\<rparr>
                          else st\<lparr>ramenTotals :=
                                    (ramenTotals st)(key := ramenTotals st key + qty)\<rparr>)
               in st'\<lparr>unassigned := takeFrom (unassigned st) index item qty\<rparr>)"

definition applyAssignCourse :: "int \<Rightarrow> RamenKey \<Rightarrow> amountArg \<Rightarrow> State \<Rightarrow> State" where
  "applyAssignCourse index key amount st =
     (case itemAt (unassigned st) index of
        None \<Rightarrow> st
      | Some item \<Rightarrow>
          let qty = moveQty item amount
          in if qty \<le> 0 then st
             else
               st\<lparr>ramenCourseTotals :=
                    (ramenCourseTotals st)(key := ramenCourseTotals st key + qty),
                  unassigned := takeFrom (unassigned st) index item qty\<rparr>)"


section \<open>Report renderer\<close>

text \<open>\<^verbatim>\<open>RAMEN_LABELS\<close>, lines 26 to 36; tsuki and yuki carry the note "lunch" in brackets.\<close>

fun RAMEN_LABELS :: "RamenKey \<Rightarrow> jstring" where
  "RAMEN_LABELS Hana = [0x82B1]"
| "RAMEN_LABELS Tsuki = [0x6708, 0xFF08, 0x30E9, 0x30F3, 0x30C1, 0xFF09]"
| "RAMEN_LABELS Yuki = [0x96EA, 0xFF08, 0x30E9, 0x30F3, 0x30C1, 0xFF09]"
| "RAMEN_LABELS Gekka = [0x6708, 0x82B1]"
| "RAMEN_LABELS Setsugetsu = [0x96EA, 0x6708]"
| "RAMEN_LABELS Setsugekka = [0x96EA, 0x6708, 0x82B1]"
| "RAMEN_LABELS HanaCoffret = [0x82B1, 0x3053, 0x3075, 0x308C]"
| "RAMEN_LABELS CurryRamen = [0x30AB, 0x30EC, 0x30FC, 0x30E9, 0x30FC, 0x30E1, 0x30F3]"
| "RAMEN_LABELS Hyouka = [0x6C37, 0x82B1]"

text \<open>Line 120: the yen sign U+00A5 and the number in the Japanese locale.\<close>

definition jpCurrency :: "platform \<Rightarrow> rat \<Rightarrow> jstring" where
  "jpCurrency P n = [0x00A5] @ toLocaleString P n"

definition weekdays :: "jstring list" where
  "weekdays =
     [[0x65E5, 0x66DC, 0x65E5], [0x6708, 0x66DC, 0x65E5], [0x706B, 0x66DC, 0x65E5],
      [0x6C34, 0x66DC, 0x65E5], [0x6728, 0x66DC, 0x65E5], [0x91D1, 0x66DC, 0x65E5],
      [0x571F, 0x66DC, 0x65E5]]"

text \<open>
  \<^verbatim>\<open>jpDateLabel\<close>, lines 121 to 125: month, U+6708, day, U+65E5, and the weekday in full-width
  brackets. An invalid date has \<^verbatim>\<open>NaN\<close> fields and no weekday.
\<close>

definition jpDateLabel :: "platform \<Rightarrow> jstring \<Rightarrow> jstring" where
  "jpDateLabel P isoDate =
     (case dateFields P (isoDate @ ascii ''T00:00:00+09:00'') of
        None \<Rightarrow>
          ascii ''NaN'' @ [0x6708] @ ascii ''NaN'' @ [0x65E5, 0xFF08] @ ascii ''undefined''
          @ [0xFF09]
      | Some (m, d, wd) \<Rightarrow>
          numToString P (of_nat m + 1) @ [0x6708] @ numToString P (of_nat d) @ [0x65E5, 0xFF08]
          @ (if wd < length weekdays then weekdays ! wd else ascii ''undefined'') @ [0xFF09])"

text \<open>\<^verbatim>\<open>pushBlank\<close>, lines 179 to 181; the empty string is the blank line.\<close>

definition pushBlank :: "jstring list \<Rightarrow> jstring list" where
  "pushBlank lines = (if lines \<noteq> [] \<and> last lines \<noteq> [] then lines @ [[]] else lines)"

text \<open>\<^verbatim>\<open>Array.prototype.join\<close>.\<close>

fun join :: "jstring \<Rightarrow> jstring list \<Rightarrow> jstring" where
  "join sep [] = []"
| "join sep [l] = l"
| "join sep (l # ls) = l @ sep @ join sep ls"

text \<open>Section 2, lines 187 to 194: the channels and the other payments with a positive amount.\<close>

definition paymentLines :: "platform \<Rightarrow> MetaState \<Rightarrow> jstring list" where
  "paymentLines P m =
     map (\<lambda>key. PAYMENT_LABELS key @ [0x3000] @ jpCurrency P (payments m key))
       (filter (\<lambda>key. payments m key > 0) PAYMENT_KEY_ORDER)
     @ map (\<lambda>e. op_label e @ [0x3000] @ jpCurrency P (op_amount e))
         (filter (\<lambda>e. op_amount e > 0) (otherPayments m))"

text \<open>Section 3, lines 201 to 203: groups U+7D44 and people U+4EBA.\<close>

definition gpLines :: "platform \<Rightarrow> MetaState \<Rightarrow> jstring list" where
  "gpLines P m =
     (if groups m > 0 then [numToString P (groups m) @ [0x7D44]] else [])
     @ (if people m > 0 then [numToString P (people m) @ [0x4EBA]] else [])"

text \<open>Section 4, lines 210 to 228; U+676F is the counter for bowls.\<close>

definition ramenTotalCount :: "Totals \<Rightarrow> Totals \<Rightarrow> Totals \<Rightarrow> rat" where
  "ramenTotalCount rt rs rc = foldl (\<lambda>s k. s + rt k + rs k + rc k) 0 RAMEN_KEYS"

definition ramenLine :: "platform \<Rightarrow> Totals \<Rightarrow> Totals \<Rightarrow> Totals \<Rightarrow> RamenKey \<Rightarrow> jstring list" where
  "ramenLine P rt rs rc key =
     (let base = rt key; setCount = rs key; courseCount = rc key;
          total = base + setCount + courseCount
      in if total \<le> 0 then []
         else
           let noteParts =
                 (if setCount > 0
                  then [ascii ''+'' @ w_set @ numToString P setCount @ [0x676F]] else [])
                 @ (if courseCount > 0
                    then [ascii ''+'' @ w_course @ numToString P courseCount @ [0x676F]] else []);
               note = (if noteParts \<noteq> [] then ascii ''('' @ join (ascii '', '') noteParts @ ascii '')''
                       else [])
           in [[0x30FB] @ RAMEN_LABELS key @ [0x3000] @ numToString P total @ [0x676F] @ note])"

definition ramenLines :: "platform \<Rightarrow> Totals \<Rightarrow> Totals \<Rightarrow> Totals \<Rightarrow> jstring list" where
  "ramenLines P rt rs rc =
     (w_ramen @ ascii ''  '' @ numToString P (ramenTotalCount rt rs rc) @ [0x676F])
     # concat (map (ramenLine P rt rs rc) RAMEN_DISPLAY_ORDER)"

text \<open>Section 5, lines 232 to 234.\<close>

definition sideLines :: "platform \<Rightarrow> MetaState \<Rightarrow> jstring list" where
  "sideLines P m =
     (if yokubariCurry m > 0
      then [w_yokubari @ w_curry @ [0x3000] @ numToString P (yokubariCurry m) @ [0x676F]] else [])
     @ (if pattyCurry m > 0
        then [w_patty @ w_curry @ [0x3000] @ numToString P (pattyCurry m) @ [0x676F]] else [])"

text \<open>Section 6, lines 243 to 247: an entry whose count is not positive gives no line.\<close>

definition courseLine :: "platform \<Rightarrow> CoursePeopleEntry \<Rightarrow> jstring list" where
  "courseLine P e =
     (if cp_count e = 0 \<or> cp_count e \<le> 0 then []
      else
        let labelWithPrice =
              (if cp_price e > 0 then cp_label e @ numToString P (cp_price e) else cp_label e)
        in [labelWithPrice @ ascii '' '' @ numToString P (cp_count e) @ [c_mei]])"

text \<open>Section 7, line 253.\<close>

definition unassignedNotice :: "platform \<Rightarrow> nat \<Rightarrow> jstring" where
  "unassignedNotice P n =
     [0xFF08, 0x8981, 0x632F, 0x308A, 0x5206, 0x3051, 0x5019, 0x88DC, 0xFF1A, 0x672A, 0x8A08,
      0x4E0A] @ ascii '' '' @ numToString P (of_nat n) @ ascii '' '' @ [0x4EF6, 0xFF09]"

text \<open>
  \<^verbatim>\<open>renderOutput\<close>, lines 170 to 257: \<open>renderLines\<close> is the array \<^verbatim>\<open>lines\<close> when the function
  returns, \<open>renderOutput\<close> its lines joined by the line feed.
\<close>

definition renderLines ::
  "platform \<Rightarrow> MetaState \<Rightarrow> Totals \<Rightarrow> Totals \<Rightarrow> Totals \<Rightarrow> CoursePeopleEntry list \<Rightarrow> nat
   \<Rightarrow> jstring list" where
  "renderLines P m rt rs rc cps unassignedCount =
     (let l1 = [jpDateLabel P (dateISO m)];
          l2 = (if paymentLines P m \<noteq> [] then pushBlank l1 @ paymentLines P m else l1);
          l3 = (if gpLines P m \<noteq> [] then pushBlank l2 @ gpLines P m else l2);
          l4 = (if ramenTotalCount rt rs rc > 0 then pushBlank l3 @ ramenLines P rt rs rc else l3);
          l5 = (if sideLines P m \<noteq> [] then pushBlank l4 @ sideLines P m else l4);
          l6 = (if cps \<noteq> [] then pushBlank l5 @ concat (map (courseLine P) cps) else l5);
          l7 = (if unassignedCount > 0 then pushBlank l6 @ [unassignedNotice P unassignedCount]
                else l6)
      in l7)"

definition renderOutput ::
  "platform \<Rightarrow> MetaState \<Rightarrow> Totals \<Rightarrow> Totals \<Rightarrow> Totals \<Rightarrow> CoursePeopleEntry list \<Rightarrow> nat
   \<Rightarrow> jstring" where
  "renderOutput P m rt rs rc cps unassignedCount =
     join [0x0A] (renderLines P m rt rs rc cps unassignedCount)"

text \<open>Lines 342 to 353: the text shown for a state.\<close>

definition outputText :: "platform \<Rightarrow> State \<Rightarrow> jstring" where
  "outputText P st =
     renderOutput P (meta st) (ramenTotals st) (ramenSetTotals st) (ramenCourseTotals st)
       (coursePeopleEntries st) (length (unassigned st))"


section \<open>A platform and inputs for examples\<close>

text \<open>
  \<open>testPlatform\<close> runs the model on concrete inputs. Its \<open>toLowerCase\<close> folds the ASCII
  letters, which is what ECMAScript does on a string of ASCII and caseless characters; its
  number conversions write the digits of a natural number, which is what ECMAScript does on
  the integers from 0 to 999; its dates are all invalid.
\<close>

definition lowerAscii :: "jstring \<Rightarrow> jstring" where
  "lowerAscii s = map (\<lambda>c. if 65 \<le> c \<and> c \<le> 90 then c + 32 else c) s"

fun natDigits :: "nat \<Rightarrow> jstring" where
  "natDigits n = (if n < 10 then [48 + int n] else natDigits (n div 10) @ [48 + int (n mod 10)])"

definition testPlatform :: platform where
  "testPlatform =
     \<lparr>toLowerCase = lowerAscii,
      numToString = (\<lambda>n. natDigits (nat \<lfloor>n\<rfloor>)),
      toLocaleString = (\<lambda>n. natDigits (nat \<lfloor>n\<rfloor>)),
      dateFields = (\<lambda>s. None)\<rparr>"

text \<open>The headers "product name" U+5546 U+54C1 U+540D and "quantity" U+6570 U+91CF.\<close>

definition k_name :: jstring where "k_name = [0x5546, 0x54C1, 0x540D]"
definition k_qty :: jstring where "k_qty = [0x6570, 0x91CF]"

text \<open>
  Miso ramen, U+5473 U+564C and the word ramen: a product that names no variant; and "refund",
  U+8FD4 U+91D1: a header that is no payment channel.
\<close>

definition n_miso_ramen :: jstring where "n_miso_ramen = [0x5473, 0x564C] @ w_ramen"
definition k_refund :: jstring where "k_refund = [0x8FD4, 0x91D1]"

definition emptyMeta :: MetaState where
  "emptyMeta =
     \<lparr>dateISO = ascii ''2025-01-01'', payments = (\<lambda>k. 0), otherPayments = [], groups = 0,
      people = 0, yokubariCurry = 0, pattyCurry = 0\<rparr>"

text \<open>A state after a run that left three bowls of miso ramen unassigned, and an empty one.\<close>

definition exampleState :: State where
  "exampleState =
     \<lparr>productFile = None, statsFile = None,
      unassigned = [\<lparr>u_name = n_miso_ramen, u_count = 3\<rparr>],
      ramenTotals = makeEmptyTotals, ramenSetTotals = makeEmptyTotals,
      ramenCourseTotals = makeEmptyTotals, coursePeopleEntries = [], meta = emptyMeta\<rparr>"

definition emptyState :: State where
  "emptyState = exampleState\<lparr>unassigned := []\<rparr>"


text \<open>Two picked files, and a reader that decodes one product row and no payment row.\<close>

definition productCsv :: PickedFile where
  "productCsv =
     \<lparr>uri = ascii ''file:///product.csv'', fname = Some (ascii ''product.csv''), ftype = None\<rparr>"

definition statsCsv :: PickedFile where
  "statsCsv =
     \<lparr>uri = ascii ''file:///stats.csv'', fname = Some (ascii ''stats.csv''), ftype = None\<rparr>"

definition pickedState :: State where
  "pickedState = exampleState\<lparr>productFile := Some productCsv, statsFile := Some statsCsv\<rparr>"

definition emptyStatsReader :: "PickedFile \<Rightarrow> jstring + row list" where
  "emptyStatsReader f =
     (if uri f = uri productCsv then Inr [[(k_name, CStr n_miso_ramen), (k_qty, CNum 2)]]
      else Inr [])"


text \<open>
  A payment row with two tax-included totals, the lower priority one first, a PayPay column and
  the group count U+7D44 U+6570; and a row without a total, with a refund of 500.
\<close>

definition k_paypay :: jstring where "k_paypay = ascii ''PayPay''"

definition k_groups :: jstring where "k_groups = [0x7D44, 0x6570]"

definition twoTotalsRow :: row where
  "twoTotalsRow =
     [(PAYMENT_ALIASES_total ! 3, CNum 99),
      (PAYMENT_ALIASES_total ! 0, CStr ([0x00A5] @ ascii ''1,234'')),
      (k_paypay, CNum 500), (k_groups, CNum 10)]"

definition noTotalRow :: row where
  "noTotalRow = [(k_paypay, CNum 500), (k_refund, CNum (- 500))]"

text \<open>
  Product rows named hana: with the quantity -1, with the quantity "0", without a quantity
  column, and with the quantity 2.
\<close>

definition negativeHanaRow :: row where
  "negativeHanaRow = [(k_name, CStr w_hana), (k_qty, CNum (- 1))]"

definition zeroQtyRow :: row where
  "zeroQtyRow = [(k_name, CStr w_hana), (k_qty, CStr (ascii ''0''))]"

definition noQtyRow :: row where
  "noQtyRow = [(k_name, CStr w_hana)]"

definition hanaRow :: row where
  "hanaRow = [(k_name, CStr w_hana), (k_qty, CNum 2)]"

text \<open>
  A course that names a ramen variant: setsugetsu, course, "8000 4" and the counter for
  people; and a course for "0" people, which gives an entry without people.
\<close>

definition n_setsugetsu_course :: jstring where
  "n_setsugetsu_course = w_setsugetsu @ w_course @ ascii ''8000 4'' @ [c_mei]"

definition courseRow :: row where
  "courseRow = [(k_name, CStr n_setsugetsu_course), (k_qty, CNum 1)]"

definition zeroPeopleRow :: row where
  "zeroPeopleRow = [(k_name, CStr (w_course @ ascii '' 0'' @ [c_mei])), (k_qty, CNum 1)]"

definition zeroPeopleCourse :: CoursePeopleEntry where
  "zeroPeopleCourse = \<lparr>cp_label = w_course, cp_price = 0, cp_count = 0\<rparr>"

text \<open>Setsugetsu, the middle dot U+30FB, gekka: a name that lists two compound variants.\<close>

definition n_setsugetsu_gekka :: jstring where
  "n_setsugetsu_gekka = w_setsugetsu @ [0x30FB] @ w_gekka"


section \<open>Notions used to state the properties\<close>

text \<open>
  \<open>contains w s\<close>: the word \<open>w\<close> occurs in \<open>s\<close> as a block of consecutive code units;
  \<open>containsCI\<close> is the same up to the case of ASCII letters. \<open>caseless\<close> holds of the code
  units that are no ASCII letter. \<open>keyOf\<close> is the key under which a pattern character and an
  input character are compared.
\<close>

primrec contains :: "jstring \<Rightarrow> jstring \<Rightarrow> bool" where
  "contains w [] = (w = [])"
| "contains w (x # xs) = (take (length w) (x # xs) = w \<or> contains w xs)"

definition containsCI :: "jstring \<Rightarrow> jstring \<Rightarrow> bool" where
  "containsCI w s = contains (map canon w) (map canon s)"

definition caseless :: "cu \<Rightarrow> bool" where
  "caseless c = (c < 65 \<or> (90 < c \<and> c < 97) \<or> 122 < c)"

definition keyOf :: "bool \<Rightarrow> cu \<Rightarrow> cu" where
  "keyOf ic c = (if ic then canon c else c)"

text \<open>
  The readings of "the 4 to 5 digit substring" and of "the N of N people" in a name.
  \<open>fourDigitsAt s\<close>: \<open>s\<close> begins with at least four digits; the result is the first four, with
  the fifth when there is one. \<open>peopleAt s\<close>: \<open>s\<close> begins with a run of digits that the counter
  for people follows at once; the result is the run. \<open>firstHit f s\<close> reads \<open>s\<close> from the left
  and gives what \<open>f\<close> finds at the first place where it finds something.
\<close>

definition fourDigitsAt :: "jstring \<Rightarrow> jstring option" where
  "fourDigitsAt s =
     (if 4 \<le> length (takeWhile isDigit s) then Some (take 5 (takeWhile isDigit s)) else None)"

definition peopleAt :: "jstring \<Rightarrow> jstring option" where
  "peopleAt s =
     (if takeWhile isDigit s \<noteq> [] \<and> take 1 (dropWhile isDigit s) = [c_mei]
      then Some (takeWhile isDigit s) else None)"

fun firstHit :: "(jstring \<Rightarrow> 'a option) \<Rightarrow> jstring \<Rightarrow> 'a option" where
  "firstHit f [] = f []"
| "firstHit f (x # xs) = (case f (x # xs) of None \<Rightarrow> firstHit f xs | Some m \<Rightarrow> Some m)"

text \<open>
  The shape of the rendered lines: \<open>noDoubleBlank\<close> holds when no two blank lines follow one
  another, \<open>headed\<close> when, moreover, there is a first line and it is not blank.
\<close>

fun noDoubleBlank :: "jstring list \<Rightarrow> bool" where
  "noDoubleBlank (a # b # r) = (\<not> (a = [] \<and> b = []) \<and> noDoubleBlank (b # r))"
| "noDoubleBlank _ = True"

definition headed :: "jstring list \<Rightarrow> bool" where
  "headed ls = (ls \<noteq> [] \<and> hd ls \<noteq> [] \<and> noDoubleBlank ls)"

text \<open>
  The columns of a payment row that are recorded as other payments: the value is not zero,
  the normalized header is no alias of a channel, and it is not in the ignore list.
\<close>

definition isOtherColumn :: "platform \<Rightarrow> jstring \<times> cell \<Rightarrow> bool" where
  "isOtherColumn P e =
     (toNum (snd e) \<noteq> 0
      \<and> map_of (buildPaymentAliasMap P) (norm_str P (fst e)) = None
      \<and> norm_str P (fst e) \<notin> set (ignoreSet P))"


section \<open>Properties of the manual reassignment\<close>

lemma itemAt_None_iff: "itemAt xs i = None \<longleftrightarrow> (i < 0 \<or> int (length xs) \<le> i)"
  by (auto simp: itemAt_def)

lemma foldl_add_sum: "foldl (\<lambda>s it. s + f it) a xs = a + sum_list (map f xs)"
  by (induction xs arbitrary: a) (simp_all add: add.assoc)

text \<open>
  Claim C10. Reassign and ReassignToCourse called with an index that refers to no unassigned
  item, negative or past the end of the list, return the state they were given: the
  unassigned list and the plain, set and course totals are unchanged. The operations have no
  error result.
\<close>

theorem reassign_out_of_range_noop:
  "index < 0 \<or> int (length (unassigned st)) \<le> index \<Longrightarrow>
     applyAssign index key asSet amount st = st \<and> applyAssignCourse index key amount st = st"
  by (simp add: applyAssign_def applyAssignCourse_def itemAt_None_iff[symmetric])

theorem reassign_out_of_range_noop_witness:
  "((5::int) < 0 \<or> int (length (unassigned exampleState)) \<le> 5) \<and>
   applyAssign 5 Hana True (Amount 1) exampleState = exampleState \<and>
   applyAssignCourse 5 Hana (Amount 1) exampleState = exampleState"
proof -
  have h: "(5::int) < 0 \<or> int (length (unassigned exampleState)) \<le> 5"
    by (simp add: exampleState_def)
  show ?thesis
    using h reassign_out_of_range_noop[OF h, of Hana True "Amount 1"] by simp
qed

text \<open>
  Claim C6. On a non-empty unassigned list, BulkAssignAllToDefault adds the sum of the
  remaining quantities of all unassigned items to the set count of hana, empties the list and
  changes nothing else; on an empty list it reports that there is nothing to assign and
  returns the state unchanged.
\<close>

theorem bulk_assign_all:
  "(unassigned st \<noteq> [] \<longrightarrow>
      assignAllUnassignedToHanaSet st =
        (None, st\<lparr>ramenSetTotals :=
                     (ramenSetTotals st)
                       (Hana := ramenSetTotals st Hana + sum_list (map u_count (unassigned st))),
                   unassigned := []\<rparr>))
   \<and> (unassigned st = [] \<longrightarrow>
        assignAllUnassignedToHanaSet st =
          (Some (Alert msg_none_unassigned msg_nothing_to_assign), st))"
  by (simp add: assignAllUnassignedToHanaSet_def foldl_add_sum)

theorem bulk_assign_all_witness:
  "unassigned exampleState \<noteq> [] \<and>
   ramenSetTotals (snd (assignAllUnassignedToHanaSet exampleState)) Hana = 3 \<and>
   unassigned (snd (assignAllUnassignedToHanaSet exampleState)) = [] \<and>
   unassigned emptyState = [] \<and>
   snd (assignAllUnassignedToHanaSet emptyState) = emptyState"
proof -
  have h1: "unassigned exampleState \<noteq> []" by (simp add: exampleState_def)
  have h2: "unassigned emptyState = []" by (simp add: emptyState_def)
  show ?thesis
    using h1 h2 bulk_assign_all[of exampleState] bulk_assign_all[of emptyState]
    by (simp add: exampleState_def makeEmptyTotals_def)
qed






section \<open>Properties of the classification run\<close>

text \<open>
  Claim C8. When the payment-summary file decodes to no row, the run ends with an alert and
  returns the state it was given: no field of the report state changes. When the product file
  was read, its rows are not classified into the state either, and the alert carries the
  message that the sales file has no rows.
\<close>

theorem empty_stats_aborts:
  assumes "statsFile st = Some sf" and "reader sf = Inr []"
  shows "snd (makeSummary P reader resolveDate st) = st
         \<and> fst (makeSummary P reader resolveDate st) \<noteq> None
         \<and> (\<forall>pf productRows. productFile st = Some pf \<and> reader pf = Inr productRows \<longrightarrow>
               fst (makeSummary P reader resolveDate st) = Some (Alert msg_error msg_no_rows))"
  using assms by (auto simp: makeSummary_def split: option.splits sum.splits list.splits)

theorem empty_stats_aborts_witness:
  "statsFile pickedState = Some statsCsv \<and> emptyStatsReader statsCsv = Inr [] \<and>
   makeSummary testPlatform emptyStatsReader (\<lambda>r s p. []) pickedState
     = (Some (Alert msg_error msg_no_rows), pickedState)"
proof -
  have h1: "statsFile pickedState = Some statsCsv" by (simp add: pickedState_def)
  have h2: "emptyStatsReader statsCsv = Inr []" by code_simp
  have h3: "productFile pickedState = Some productCsv" by (simp add: pickedState_def)
  have h4: "emptyStatsReader productCsv = Inr [[(k_name, CStr n_miso_ramen), (k_qty, CNum 2)]]"
    by (simp add: emptyStatsReader_def)
  show ?thesis
    using h1 h2 h3 h4
      empty_stats_aborts[of pickedState statsCsv emptyStatsReader testPlatform "\<lambda>r s p. []",
        OF h1 h2]
    by (metis prod.collapse)
qed

text \<open>
  A run on a payment-summary file with at least one row succeeds and stores what the two
  classifiers computed from the first payment row and from the product rows.
\<close>

lemma makeSummary_stores_classification:
  assumes "productFile st = Some pf" and "statsFile st = Some sf"
    and "reader pf = Inr productRows" and "reader sf = Inr (dayRow # otherRows)"
  shows "fst (makeSummary P reader resolveDate st) = None"
    and "payments (meta (snd (makeSummary P reader resolveDate st)))
           = acc_payments (classifyPayments P dayRow)"
    and "otherPayments (meta (snd (makeSummary P reader resolveDate st)))
           = acc_otherPayments (classifyPayments P dayRow)"
    and "ramenTotals (snd (makeSummary P reader resolveDate st))
           = localTotals (classifyProducts P productRows)"
    and "ramenSetTotals (snd (makeSummary P reader resolveDate st))
           = localSetTotals (classifyProducts P productRows)"
    and "ramenCourseTotals (snd (makeSummary P reader resolveDate st))
           = localCourseTotals (classifyProducts P productRows)"
    and "coursePeopleEntries (snd (makeSummary P reader resolveDate st))
           = coursePeople (classifyProducts P productRows)"
    and "unassigned (snd (makeSummary P reader resolveDate st))
           = ambiguous (classifyProducts P productRows)"
  using assms by (simp_all add: makeSummary_def Let_def)


section \<open>Properties of the regular expressions\<close>

lemma sameChar_keyOf: "sameChar ic c x \<longleftrightarrow> keyOf ic c = keyOf ic x"
  by (simp add: sameChar_def keyOf_def)

lemma lits_Nil: "lits [] = Eps" by (simp add: lits_def)

lemma lits_Cons: "lits (c # w) = Seq (Chr c) (lits w)" by (simp add: lits_def)

lemma ends_lits:
  "ends ic (lits w) (b, a) =
     (if take (length w) (map (keyOf ic) a) = map (keyOf ic) w
      then [(rev (take (length w) a) @ b, drop (length w) a)] else [])"
proof (induction w arbitrary: a b)
  case Nil
  show ?case by (simp add: lits_Nil)
next
  case (Cons c w)
  show ?case
  proof (cases a)
    case Nil
    then show ?thesis by (simp add: lits_Cons step1_def)
  next
    case (Cons x xs)
    then show ?thesis
      using Cons.IH[of "x # b" xs]
      by (auto simp: lits_Cons step1_def sameChar_keyOf)
  qed
qed

lemma scan_iff:
  "scan ic r b a \<noteq> None \<longleftrightarrow> (\<exists>i\<le>length a. ends ic r (rev (take i a) @ b, drop i a) \<noteq> [])"
proof (induction a arbitrary: b)
  case Nil
  show ?case by (simp split: list.splits)
next
  case (Cons x xs)
  have "(\<exists>i\<le>length (x # xs). ends ic r (rev (take i (x # xs)) @ b, drop i (x # xs)) \<noteq> [])
        \<longleftrightarrow> ends ic r (b, x # xs) \<noteq> []
            \<or> (\<exists>i\<le>length xs. ends ic r (rev (take i xs) @ x # b, drop i xs) \<noteq> [])"
    (is "?L \<longleftrightarrow> ?A \<or> ?B")
  proof
    assume ?L
    then obtain i where i: "i \<le> length (x # xs)"
      "ends ic r (rev (take i (x # xs)) @ b, drop i (x # xs)) \<noteq> []" by blast
    show "?A \<or> ?B"
    proof (cases i)
      case 0
      with i show ?thesis by simp
    next
      case (Suc k)
      with i have "k \<le> length xs" "ends ic r (rev (take k xs) @ x # b, drop k xs) \<noteq> []"
        by simp_all
      then show ?thesis by blast
    qed
  next
    assume "?A \<or> ?B"
    then show ?L
    proof
      assume ?A
      then show ?L by (intro exI[of _ 0]) simp
    next
      assume ?B
      then obtain k where "k \<le> length xs" "ends ic r (rev (take k xs) @ x # b, drop k xs) \<noteq> []"
        by blast
      then show ?L by (intro exI[of _ "Suc k"]) simp
    qed
  qed
  moreover have "scan ic r b (x # xs) \<noteq> None \<longleftrightarrow>
      ends ic r (b, x # xs) \<noteq> [] \<or> scan ic r (x # b) xs \<noteq> None"
    by (simp split: list.splits)
  ultimately show ?case using Cons.IH[of "x # b"] by simp
qed

lemma re_test_Alt: "re_test ic (Alt r1 r2) s \<longleftrightarrow> re_test ic r1 s \<or> re_test ic r2 s"
  unfolding re_test_def scan_iff by auto

lemma contains_iff: "contains w s \<longleftrightarrow> (\<exists>i\<le>length s. take (length w) (drop i s) = w)"
proof (induction s)
  case Nil
  show ?case by auto
next
  case (Cons x xs)
  have "(\<exists>i\<le>length (x # xs). take (length w) (drop i (x # xs)) = w)
        \<longleftrightarrow> take (length w) (x # xs) = w \<or> (\<exists>i\<le>length xs. take (length w) (drop i xs) = w)"
    (is "?L \<longleftrightarrow> ?A \<or> ?B")
  proof
    assume ?L
    then obtain i where i: "i \<le> length (x # xs)" "take (length w) (drop i (x # xs)) = w" by blast
    show "?A \<or> ?B"
    proof (cases i)
      case 0
      with i show ?thesis by simp
    next
      case (Suc k)
      with i have "k \<le> length xs" "take (length w) (drop k xs) = w" by simp_all
      then show ?thesis by blast
    qed
  next
    assume "?A \<or> ?B"
    then show ?L
    proof
      assume ?A
      then show ?L by (intro exI[of _ 0]) simp
    next
      assume ?B
      then obtain k where "k \<le> length xs" "take (length w) (drop k xs) = w" by blast
      then show ?L by (intro exI[of _ "Suc k"]) simp
    qed
  qed
  then show ?case using Cons.IH by simp
qed

lemma re_test_lits: "re_test ic (lits w) s \<longleftrightarrow> contains (map (keyOf ic) w) (map (keyOf ic) s)"
  unfolding re_test_def scan_iff contains_iff ends_lits
  by (auto simp: drop_map)

lemma re_test_lits_ci: "re_test True (lits w) s \<longleftrightarrow> containsCI w s"
  by (simp add: re_test_lits containsCI_def keyOf_def[abs_def])

lemma canon_caseless: "caseless c \<Longrightarrow> canon x = canon c \<longleftrightarrow> x = c"
  by (auto simp: canon_def caseless_def split: if_splits)

lemma take_canon_caseless:
  "list_all caseless w \<Longrightarrow> take (length w) (map canon s) = map canon w \<longleftrightarrow> take (length w) s = w"
proof (induction w arbitrary: s)
  case Nil
  show ?case by simp
next
  case (Cons c w)
  then show ?case
    by (cases s) (auto simp: canon_caseless)
qed

lemma containsCI_caseless: "list_all caseless w \<Longrightarrow> containsCI w s \<longleftrightarrow> contains w s"
proof -
  assume w: "list_all caseless w"
  have "take (length w) (drop i (map canon s)) = map canon w \<longleftrightarrow> take (length w) (drop i s) = w"
    for i
    using take_canon_caseless[OF w, of "drop i s"] by (simp add: drop_map)
  then show ?thesis
    unfolding containsCI_def contains_iff by simp
qed


section \<open>Properties of the ramen detection\<close>

lemma caseless_words:
  "list_all caseless w_setsugekka" "list_all caseless w_setsugetsu" "list_all caseless w_gekka"
  by (simp_all add: w_setsugekka_def w_setsugetsu_def w_gekka_def caseless_def)

lemma test_setsugekka:
  "re_test True rx_setsugekka name \<longleftrightarrow>
     contains w_setsugekka name \<or> containsCI (ascii ''setsugekka'') name"
  by (simp add: rx_setsugekka_def re_test_Alt re_test_lits_ci containsCI_caseless caseless_words)

lemma test_setsugetsu:
  "re_test True rx_setsugetsu name \<longleftrightarrow>
     contains w_setsugetsu name \<or> containsCI (ascii ''setsugetsu'') name"
  by (simp add: rx_setsugetsu_def re_test_Alt re_test_lits_ci containsCI_caseless caseless_words)

lemma test_gekka:
  "re_test True rx_gekka name \<longleftrightarrow> contains w_gekka name \<or> containsCI (ascii ''gekka'') name"
  by (simp add: rx_gekka_def re_test_Alt re_test_lits_ci containsCI_caseless caseless_words)

text \<open>
  Claim C7, as amended. Every name that contains setsugekka (U+96EA U+6708 U+82B1) is
  detected as setsugekka. Every name that contains setsugetsu (U+96EA U+6708) and matches
  the setsugekka pattern in neither of its two branches, the kanji word and the romaji word
  in any letter case, is detected as setsugetsu. Every name that contains gekka
  (U+6708 U+82B1) and matches neither the setsugekka nor the setsugetsu pattern is detected as
  gekka. In each case the result is the compound variant, not one of its single characters.
\<close>

theorem compound_variants_first:
  "(contains w_setsugekka name \<longrightarrow> guessRamenKey name = Some Setsugekka)
   \<and> (contains w_setsugetsu name \<and> \<not> contains w_setsugekka name
        \<and> \<not> containsCI (ascii ''setsugekka'') name \<longrightarrow>
      guessRamenKey name = Some Setsugetsu)
   \<and> (contains w_gekka name \<and> \<not> contains w_setsugekka name \<and> \<not> contains w_setsugetsu name
        \<and> \<not> containsCI (ascii ''setsugekka'') name
        \<and> \<not> containsCI (ascii ''setsugetsu'') name \<longrightarrow>
      guessRamenKey name = Some Gekka)"
  by (simp add: guessRamenKey_def test_setsugekka test_setsugetsu test_gekka)

theorem compound_variants_first_witness:
  "contains w_setsugekka (w_setsugekka @ w_set)
   \<and> guessRamenKey (w_setsugekka @ w_set) = Some Setsugekka
   \<and> contains w_setsugetsu (w_setsugetsu @ w_set)
   \<and> \<not> contains w_setsugekka (w_setsugetsu @ w_set)
   \<and> \<not> containsCI (ascii ''setsugekka'') (w_setsugetsu @ w_set)
   \<and> guessRamenKey (w_setsugetsu @ w_set) = Some Setsugetsu
   \<and> contains w_gekka (w_gekka @ w_set)
   \<and> \<not> contains w_setsugekka (w_gekka @ w_set)
   \<and> \<not> contains w_setsugetsu (w_gekka @ w_set)
   \<and> \<not> containsCI (ascii ''setsugekka'') (w_gekka @ w_set)
   \<and> \<not> containsCI (ascii ''setsugetsu'') (w_gekka @ w_set)
   \<and> guessRamenKey (w_gekka @ w_set) = Some Gekka"
proof -
  have a: "contains w_setsugekka (w_setsugekka @ w_set)" by code_simp
  have b: "contains w_setsugetsu (w_setsugetsu @ w_set)
           \<and> \<not> contains w_setsugekka (w_setsugetsu @ w_set)
           \<and> \<not> containsCI (ascii ''setsugekka'') (w_setsugetsu @ w_set)" by code_simp
  have c: "contains w_gekka (w_gekka @ w_set)
           \<and> \<not> contains w_setsugekka (w_gekka @ w_set)
           \<and> \<not> contains w_setsugetsu (w_gekka @ w_set)
           \<and> \<not> containsCI (ascii ''setsugekka'') (w_gekka @ w_set)
           \<and> \<not> containsCI (ascii ''setsugetsu'') (w_gekka @ w_set)" by code_simp
  show ?thesis
    using a b c compound_variants_first[of "w_setsugekka @ w_set"]
      compound_variants_first[of "w_setsugetsu @ w_set"]
      compound_variants_first[of "w_gekka @ w_set"]
    by blast
qed

text \<open>
  Claim C7 as stated fails: the name setsugetsu, middle dot, gekka contains gekka and does
  not contain setsugekka, and it is detected as setsugetsu, because the setsugetsu pattern is
  tried before the gekka pattern.
\<close>

theorem gekka_after_setsugetsu_detects_setsugetsu:
  "contains w_gekka n_setsugetsu_gekka \<and> \<not> contains w_setsugekka n_setsugetsu_gekka \<and>
   guessRamenKey n_setsugetsu_gekka = Some Setsugetsu"
  by code_simp


section \<open>Properties of the payment classifier\<close>

lemma payStep_total: "acc_payments (payStep P e acc) Total = acc_payments acc Total"
  by (auto simp: payStep_def Let_def)

lemma fold_payStep_total:
  "acc_payments (fold (payStep P) r acc) Total = acc_payments acc Total"
  by (induction r arbitrary: acc) (simp_all add: payStep_total)

lemma classifyPayments_total:
  "acc_payments (classifyPayments P dayRow) Total = pickFirst P dayRow (PAYMENT_ALIASES Total)"
  by (simp add: classifyPayments_def Let_def fold_payStep_total)

lemma pickFirst_none:
  "(\<forall>a \<in> set cands. firstByCandidates P r [a] \<le> 0) \<Longrightarrow> pickFirst P r cands = 0"
proof -
  assume h: "\<forall>a \<in> set cands. firstByCandidates P r [a] \<le> 0"
  have "find (\<lambda>v. v > 0) (map (\<lambda>c. firstByCandidates P r [c]) cands) = None"
    using h by (auto simp: find_None_iff)
  then show ?thesis by (simp add: pickFirst_def)
qed

lemma pickFirst_first:
  assumes "i < length cands" and "0 < firstByCandidates P r [cands ! i]"
    and "\<forall>j<i. firstByCandidates P r [cands ! j] \<le> 0"
  shows "pickFirst P r cands = firstByCandidates P r [cands ! i]"
proof -
  let ?vs = "map (\<lambda>c. firstByCandidates P r [c]) cands"
  have "find (\<lambda>v. v > 0) ?vs = Some (?vs ! i)"
    unfolding find_Some_iff
  proof (intro exI[of _ i] conjI)
    show "i < length ?vs" using assms(1) by simp
    show "0 < ?vs ! i" using assms(1,2) by simp
    show "?vs ! i = ?vs ! i" ..
    show "\<forall>j<i. \<not> 0 < ?vs ! j" using assms(1,3) by (auto simp: not_less)
  qed
  then show ?thesis using assms(1) by (simp add: pickFirst_def)
qed

text \<open>
  Claim C1. The value of an alias in the row is what the field resolver returns for that
  alias alone. When no alias of the total channel has a positive value in the row, the total
  payment is 0. When the alias at position \<open>i\<close> of the priority-ordered list has a positive
  value and no alias before it has one, the total payment is the value of that alias: one
  column's value, never a sum over several total columns.
\<close>

theorem total_is_first_positive_alias:
  "((\<forall>a \<in> set (PAYMENT_ALIASES Total). firstByCandidates P dayRow [a] \<le> 0) \<longrightarrow>
      acc_payments (classifyPayments P dayRow) Total = 0)
   \<and> (i < length (PAYMENT_ALIASES Total)
        \<and> 0 < firstByCandidates P dayRow [PAYMENT_ALIASES Total ! i]
        \<and> (\<forall>j<i. firstByCandidates P dayRow [PAYMENT_ALIASES Total ! j] \<le> 0) \<longrightarrow>
      acc_payments (classifyPayments P dayRow) Total
        = firstByCandidates P dayRow [PAYMENT_ALIASES Total ! i])"
  unfolding classifyPayments_total
  using pickFirst_none[of "PAYMENT_ALIASES Total" P dayRow]
    pickFirst_first[of i "PAYMENT_ALIASES Total" P dayRow]
  by blast

theorem total_is_first_positive_alias_witness:
  "(0::nat) < length (PAYMENT_ALIASES Total)
   \<and> 0 < firstByCandidates testPlatform twoTotalsRow [PAYMENT_ALIASES Total ! 0]
   \<and> firstByCandidates testPlatform twoTotalsRow [PAYMENT_ALIASES Total ! 3] = 99
   \<and> acc_payments (classifyPayments testPlatform twoTotalsRow) Total = 1234
   \<and> list_all (\<lambda>a. firstByCandidates testPlatform noTotalRow [a] \<le> 0) (PAYMENT_ALIASES Total)
   \<and> acc_payments (classifyPayments testPlatform noTotalRow) Total = 0"
proof -
  have h1: "(0::nat) < length (PAYMENT_ALIASES Total)" by code_simp
  have h2: "firstByCandidates testPlatform twoTotalsRow [PAYMENT_ALIASES Total ! 0] = 1234"
    by code_simp
  have h3: "firstByCandidates testPlatform twoTotalsRow [PAYMENT_ALIASES Total ! 3] = 99"
    by code_simp
  have h4: "list_all (\<lambda>a. firstByCandidates testPlatform noTotalRow [a] \<le> 0) (PAYMENT_ALIASES Total)"
    by code_simp
  have h5: "\<forall>a \<in> set (PAYMENT_ALIASES Total). firstByCandidates testPlatform noTotalRow [a] \<le> 0"
    using h4 by (simp add: list_all_iff)
  show ?thesis
    using h1 h2 h3 h4 h5 total_is_first_positive_alias[of testPlatform twoTotalsRow 0]
      total_is_first_positive_alias[of testPlatform noTotalRow 0]
    by simp
qed

lemma alias_key_ignored:
  "map_of (buildPaymentAliasMap P) nk = Some k \<Longrightarrow> nk \<in> set (ignoreSet P)"
  by (auto simp: ignoreSet_def dest!: map_of_SomeD intro: rev_image_eqI)

lemma payStep_other:
  "acc_otherPayments (payStep P e acc) =
     acc_otherPayments acc
     @ (if isOtherColumn P e then [\<lparr>op_label = fst e, op_amount = toNum (snd e)\<rparr>] else [])"
  by (auto simp: payStep_def Let_def isOtherColumn_def dest: alias_key_ignored)

lemma fold_payStep_other:
  "acc_otherPayments (fold (payStep P) r acc) =
     acc_otherPayments acc
     @ map (\<lambda>e. \<lparr>op_label = fst e, op_amount = toNum (snd e)\<rparr>) (filter (isOtherColumn P) r)"
  by (induction r arbitrary: acc) (simp_all add: payStep_other)

text \<open>
  Claim C5, as amended. The other payments of a row are, in the order of the row's columns,
  one entry for each column whose value is not zero, whose normalized header is no alias of
  a channel and whose normalized header is not in the ignore list; the label of the entry is
  the raw header and its amount the value of the column.
\<close>

theorem other_payments_nonzero_unmatched:
  "acc_otherPayments (classifyPayments P dayRow) =
     map (\<lambda>e. \<lparr>op_label = fst e, op_amount = toNum (snd e)\<rparr>)
       (filter (\<lambda>e. toNum (snd e) \<noteq> 0
                    \<and> map_of (buildPaymentAliasMap P) (norm_str P (fst e)) = None
                    \<and> norm_str P (fst e) \<notin> set (ignoreSet P)) dayRow)"
  using fold_payStep_other[of P dayRow "\<lparr>acc_payments = (\<lambda>k. 0), acc_otherPayments = []\<rparr>"]
  by (simp add: classifyPayments_def Let_def isOtherColumn_def[abs_def])

theorem other_payments_nonzero_unmatched_witness:
  "acc_otherPayments (classifyPayments testPlatform (twoTotalsRow @ noTotalRow)) =
     [\<lparr>op_label = k_refund, op_amount = - 500\<rparr>]"
proof -
  have "map (\<lambda>e. \<lparr>op_label = fst e, op_amount = toNum (snd e)\<rparr>)
       (filter (\<lambda>e. toNum (snd e) \<noteq> 0
                    \<and> map_of (buildPaymentAliasMap testPlatform) (norm_str testPlatform (fst e)) = None
                    \<and> norm_str testPlatform (fst e) \<notin> set (ignoreSet testPlatform)) (twoTotalsRow @ noTotalRow))
     = [\<lparr>op_label = k_refund, op_amount = - 500\<rparr>]"
    by code_simp
  then show ?thesis
    using other_payments_nonzero_unmatched[of testPlatform "twoTotalsRow @ noTotalRow"] by simp
qed

text \<open>
  Claim C5 as stated fails: a column with the negative value -500 under the header "refund",
  which is no alias and not in the ignore list, is recorded as an other payment.
\<close>

theorem negative_column_is_recorded:
  "toNum (CNum (- 500)) < 0 \<and>
   acc_otherPayments (classifyPayments testPlatform [(k_refund, CNum (- 500))])
     = [\<lparr>op_label = k_refund, op_amount = - 500\<rparr>]"
  by code_simp

section \<open>Properties of the product classifier\<close>

lemma firstByCandidates_missing:
  "(\<forall>c \<in> set cands. \<forall>k \<in> set (map fst r). norm_str P k \<noteq> norm_str P c) \<Longrightarrow>
     firstByCandidates P r cands = 0"
proof (induction cands)
  case Nil
  show ?case by simp
next
  case (Cons c cands)
  have "find (\<lambda>k. norm_str P k = norm_str P c) (map fst r) = None"
    using Cons.prems by (auto simp: find_None_iff)
  then show ?case using Cons by simp
qed

lemma productStep_zero:
  "firstByCandidates P r PRODUCT_QTY_CANDS = 0 \<Longrightarrow> productStep P r acc = acc"
  by (simp add: productStep_def Let_def)

lemma fold_productStep_filter:
  "fold (productStep P) rows acc =
     fold (productStep P) (filter (\<lambda>r. firstByCandidates P r PRODUCT_QTY_CANDS \<noteq> 0) rows) acc"
  by (induction rows arbitrary: acc) (simp_all add: productStep_zero)

lemma productStep_nonzero:
  "firstByCandidates P r PRODUCT_QTY_CANDS \<noteq> 0 \<Longrightarrow>
     productStep P r acc =
       classifyProduct (firstKeyStr P r PRODUCT_NAME_CANDS)
         (firstByCandidates P r PRODUCT_QTY_CANDS) (firstKeyStr P r PRODUCT_CATEGORY_CANDS) acc"
  by (simp add: productStep_def Let_def)

text \<open>
  Claim C4, as amended. A product row whose resolved quantity is zero, and so a row that has
  no quantity column at all, is skipped before any other rule: the step leaves every count and
  every list as it was, and a run over the rows gives the same result as a run over the rows
  whose resolved quantity is not zero. A row whose resolved quantity is not zero, a negative
  one as well as a positive one, is not skipped: it goes through the classification rules
  with its name, its quantity and its category.
\<close>

theorem zero_or_missing_quantity_skipped:
  "(firstByCandidates P r PRODUCT_QTY_CANDS = 0 \<longrightarrow> productStep P r acc = acc)
   \<and> ((\<forall>c \<in> set PRODUCT_QTY_CANDS. \<forall>k \<in> set (map fst r). norm_str P k \<noteq> norm_str P c) \<longrightarrow>
        productStep P r acc = acc)
   \<and> (firstByCandidates P r PRODUCT_QTY_CANDS \<noteq> 0 \<longrightarrow>
        productStep P r acc =
          classifyProduct (firstKeyStr P r PRODUCT_NAME_CANDS)
            (firstByCandidates P r PRODUCT_QTY_CANDS) (firstKeyStr P r PRODUCT_CATEGORY_CANDS)
            acc)
   \<and> classifyProducts P rows =
       classifyProducts P (filter (\<lambda>r. firstByCandidates P r PRODUCT_QTY_CANDS \<noteq> 0) rows)"
proof (intro conjI impI)
  show "productStep P r acc = acc" if "firstByCandidates P r PRODUCT_QTY_CANDS = 0"
    using that by (rule productStep_zero)
  show "productStep P r acc = acc"
    if "\<forall>c \<in> set PRODUCT_QTY_CANDS. \<forall>k \<in> set (map fst r). norm_str P k \<noteq> norm_str P c"
    using firstByCandidates_missing[OF that] by (rule productStep_zero)
  show "productStep P r acc =
          classifyProduct (firstKeyStr P r PRODUCT_NAME_CANDS)
            (firstByCandidates P r PRODUCT_QTY_CANDS) (firstKeyStr P r PRODUCT_CATEGORY_CANDS)
            acc"
    if "firstByCandidates P r PRODUCT_QTY_CANDS \<noteq> 0"
    using that by (rule productStep_nonzero)
  show "classifyProducts P rows =
       classifyProducts P (filter (\<lambda>r. firstByCandidates P r PRODUCT_QTY_CANDS \<noteq> 0) rows)"
    unfolding classifyProducts_def by (rule fold_productStep_filter)
qed

theorem zero_or_missing_quantity_skipped_witness:
  "firstByCandidates testPlatform zeroQtyRow PRODUCT_QTY_CANDS = 0
   \<and> productStep testPlatform zeroQtyRow emptyProdAcc = emptyProdAcc
   \<and> list_all (\<lambda>c. list_all (\<lambda>k. norm_str testPlatform k \<noteq> norm_str testPlatform c)
                     (map fst noQtyRow)) PRODUCT_QTY_CANDS
   \<and> productStep testPlatform noQtyRow emptyProdAcc = emptyProdAcc
   \<and> firstByCandidates testPlatform negativeHanaRow PRODUCT_QTY_CANDS \<noteq> 0
   \<and> productStep testPlatform negativeHanaRow emptyProdAcc
       = classifyProduct w_hana (- 1) [] emptyProdAcc
   \<and> classifyProducts testPlatform [zeroQtyRow, hanaRow, noQtyRow]
       = classifyProducts testPlatform [hanaRow]"
proof -
  have h1: "firstByCandidates testPlatform zeroQtyRow PRODUCT_QTY_CANDS = 0" by code_simp
  have h2: "list_all (\<lambda>c. list_all (\<lambda>k. norm_str testPlatform k \<noteq> norm_str testPlatform c)
                     (map fst noQtyRow)) PRODUCT_QTY_CANDS" by code_simp
  have h3: "\<forall>c \<in> set PRODUCT_QTY_CANDS. \<forall>k \<in> set (map fst noQtyRow).
              norm_str testPlatform k \<noteq> norm_str testPlatform c"
    using h2 unfolding list_all_iff .
  have h4: "filter (\<lambda>r. firstByCandidates testPlatform r PRODUCT_QTY_CANDS \<noteq> 0)
              [zeroQtyRow, hanaRow, noQtyRow] = [hanaRow]" by code_simp
  have h5: "firstByCandidates testPlatform negativeHanaRow PRODUCT_QTY_CANDS = - 1"
    by code_simp
  have h6: "firstKeyStr testPlatform negativeHanaRow PRODUCT_NAME_CANDS = w_hana"
    by code_simp
  have h7: "firstKeyStr testPlatform negativeHanaRow PRODUCT_CATEGORY_CANDS = []"
    by code_simp
  have n0: "firstByCandidates testPlatform negativeHanaRow PRODUCT_QTY_CANDS \<noteq> 0"
    unfolding h5 by simp
  have a: "productStep testPlatform zeroQtyRow emptyProdAcc = emptyProdAcc"
    using zero_or_missing_quantity_skipped[of testPlatform zeroQtyRow emptyProdAcc "[]"] h1
    by blast
  have b: "productStep testPlatform noQtyRow emptyProdAcc = emptyProdAcc"
    using zero_or_missing_quantity_skipped[of testPlatform noQtyRow emptyProdAcc "[]"] h3
    by blast
  have c0: "productStep testPlatform negativeHanaRow emptyProdAcc =
      classifyProduct (firstKeyStr testPlatform negativeHanaRow PRODUCT_NAME_CANDS)
        (firstByCandidates testPlatform negativeHanaRow PRODUCT_QTY_CANDS)
        (firstKeyStr testPlatform negativeHanaRow PRODUCT_CATEGORY_CANDS) emptyProdAcc"
    using zero_or_missing_quantity_skipped[of testPlatform negativeHanaRow emptyProdAcc "[]"] n0
    by blast
  have c: "productStep testPlatform negativeHanaRow emptyProdAcc
             = classifyProduct w_hana (- 1) [] emptyProdAcc"
    using c0 unfolding h5 h6 h7 .
  have d0: "classifyProducts testPlatform [zeroQtyRow, hanaRow, noQtyRow] =
      classifyProducts testPlatform
        (filter (\<lambda>r. firstByCandidates testPlatform r PRODUCT_QTY_CANDS \<noteq> 0)
           [zeroQtyRow, hanaRow, noQtyRow])"
    using zero_or_missing_quantity_skipped[of testPlatform zeroQtyRow emptyProdAcc
        "[zeroQtyRow, hanaRow, noQtyRow]"]
    by blast
  have d: "classifyProducts testPlatform [zeroQtyRow, hanaRow, noQtyRow]
             = classifyProducts testPlatform [hanaRow]"
    using d0 unfolding h4 .
  show ?thesis
    by (intro conjI h1 a h2 b n0 c d)
qed

text \<open>
  Claim C4 as stated fails: a row named hana with the quantity -1 is not skipped; it
  takes one bowl off the plain count of hana.
\<close>

theorem negative_quantity_is_counted:
  "firstByCandidates testPlatform negativeHanaRow PRODUCT_QTY_CANDS = - 1
   \<and> localTotals (productStep testPlatform negativeHanaRow emptyProdAcc) Hana = - 1"
  by code_simp

lemma re_match_firstHit:
  assumes "\<And>b a. ends ic r (b, a) = [] \<longleftrightarrow> f a = None"
    and "\<And>b a m. f a = Some m \<Longrightarrow> snd (hd (ends ic r (b, a))) = drop (length m) a \<and> m = take (length m) a \<and> length m \<le> length a"
  shows "re_match ic r s = firstHit f s"
proof -
  have "(case scan ic r b s of None \<Rightarrow> None
      | Some (p, q) \<Rightarrow> Some (take (length (snd p) - length (snd q)) (snd p))) = firstHit f s" for b
  proof (induction s arbitrary: b)
    case Nil
    show ?case
    proof (cases "f []")
      case None
      then have "ends ic r (b, []) = []" using assms(1) by simp
      then show ?thesis using None by simp
    next
      case (Some m)
      then have ne: "ends ic r (b, []) \<noteq> []" using assms(1)[of b "[]"] by simp
      from assms(2)[OF Some, of b] have "m = []" by simp
      with ne Some show ?thesis by (auto split: list.splits)
    qed
  next
    case (Cons x xs)
    show ?case
    proof (cases "f (x # xs)")
      case None
      then have "ends ic r (b, x # xs) = []" using assms(1) by simp
      then show ?thesis using None Cons.IH[of "x # b"] by simp
    next
      case (Some m)
      then have ne: "ends ic r (b, x # xs) \<noteq> []" using assms(1)[of b "x # xs"] by simp
      then obtain q qs where q: "ends ic r (b, x # xs) = q # qs" by (cases "ends ic r (b, x # xs)") auto
      from assms(2)[OF Some, of b] q
      have "snd q = drop (length m) (x # xs)" "m = take (length m) (x # xs)" "length m \<le> length (x # xs)"
        by simp_all
      then have "take (length (x # xs) - length (snd q)) (x # xs) = m"
        by (metis diff_diff_cancel length_drop)
      then show ?thesis using q Some by simp
    qed
  qed
  then show ?thesis by (simp add: re_match_def)
qed

lemma ends_PRICE:
  "ends False PRICE_PATTERN (b, a) =
     (case a of
        x1 # x2 # x3 # x4 # rest \<Rightarrow>
          if isDigit x1 \<and> isDigit x2 \<and> isDigit x3 \<and> isDigit x4
          then (case rest of [] \<Rightarrow> [] | x5 # r \<Rightarrow>
                  if isDigit x5 then [(x5 # x4 # x3 # x2 # x1 # b, r)] else [])
               @ [(x4 # x3 # x2 # x1 # b, rest)]
          else []
      | _ \<Rightarrow> [])"
  by (simp add: PRICE_PATTERN_def seqs_def step1_def split: list.splits)

lemma fourDigitsAt_cases:
  "fourDigitsAt a =
     (case a of
        x1 # x2 # x3 # x4 # rest \<Rightarrow>
          if isDigit x1 \<and> isDigit x2 \<and> isDigit x3 \<and> isDigit x4
          then (case rest of [] \<Rightarrow> Some [x1, x2, x3, x4] | x5 # r \<Rightarrow>
                  if isDigit x5 then Some [x1, x2, x3, x4, x5] else Some [x1, x2, x3, x4])
          else None
      | _ \<Rightarrow> None)"
  by (auto simp: fourDigitsAt_def split: list.splits)

lemma re_match_PRICE: "re_match False PRICE_PATTERN s = firstHit fourDigitsAt s"
proof (rule re_match_firstHit)
  fix b a
  show "ends False PRICE_PATTERN (b, a) = [] \<longleftrightarrow> fourDigitsAt a = None"
    unfolding ends_PRICE fourDigitsAt_cases by (auto split: list.splits)
next
  fix b a m
  assume "fourDigitsAt a = Some m"
  then show "snd (hd (ends False PRICE_PATTERN (b, a))) = drop (length m) a
             \<and> m = take (length m) a \<and> length m \<le> length a"
    unfolding ends_PRICE fourDigitsAt_cases by (auto split: list.splits if_splits)
qed

lemma mei_not_digit: "\<not> isDigit c_mei"
  by (simp add: isDigit_def c_mei_def)

lemma star_digit_mei:
  "length a \<le> n \<Longrightarrow>
   concat (map (step1 (sameChar False c_mei)) (star_iter n (step1 isDigit) (b, a))) =
     (if take 1 (dropWhile isDigit a) = [c_mei]
      then [(c_mei # rev (takeWhile isDigit a) @ b, tl (dropWhile isDigit a))] else [])"
proof (induction n arbitrary: a b)
  case 0
  then show ?case by (simp add: step1_def)
next
  case (Suc n)
  show ?case
  proof (cases a)
    case Nil
    then show ?thesis by (simp add: step1_def)
  next
    case (Cons x xs)
    show ?thesis
    proof (cases "isDigit x")
      case True
      have ne: "x \<noteq> c_mei" using True mei_not_digit by auto
      have len: "length xs \<le> n" using Suc.prems Cons by simp
      show ?thesis
        using Suc.IH[OF len, of "x # b"] True ne Cons
        by (simp add: step1_def sameChar_def)
    next
      case False
      then show ?thesis using Cons
        by (auto simp: step1_def sameChar_def)
    qed
  qed
qed

lemma ends_NAME_PEOPLE:
  "ends False NAME_PEOPLE_PATTERN (b, a) =
     (if takeWhile isDigit a \<noteq> [] \<and> take 1 (dropWhile isDigit a) = [c_mei]
      then [(c_mei # rev (takeWhile isDigit a) @ b, tl (dropWhile isDigit a))] else [])"
proof (cases a)
  case Nil
  then show ?thesis by (simp add: NAME_PEOPLE_PATTERN_def plus_def step1_def)
next
  case (Cons x xs)
  show ?thesis
  proof (cases "isDigit x")
    case True
    have "ends False NAME_PEOPLE_PATTERN (b, a) =
        concat (map (step1 (sameChar False c_mei)) (star_iter (length xs) (step1 isDigit) (x # b, xs)))"
      using True Cons
      by (simp add: NAME_PEOPLE_PATTERN_def plus_def step1_def)
    then show ?thesis
      using star_digit_mei[of xs "length xs" "x # b"] True Cons by simp
  next
    case False
    then show ?thesis using Cons
      by (simp add: NAME_PEOPLE_PATTERN_def plus_def step1_def)
  qed
qed

lemma takeWhile_dropWhile_length:
  "take 1 (dropWhile P a) = [c] \<Longrightarrow>
     drop (Suc (length (takeWhile P a))) a = tl (dropWhile P a)
     \<and> take (Suc (length (takeWhile P a))) a = takeWhile P a @ [c]
     \<and> Suc (length (takeWhile P a)) \<le> length a"
proof (induction a)
  case Nil
  then show ?case by simp
next
  case (Cons x xs)
  then show ?case by (cases "P x") auto
qed

lemma re_match_NAME_PEOPLE:
  "re_match False NAME_PEOPLE_PATTERN s =
     firstHit (\<lambda>a. map_option (\<lambda>ds. ds @ [c_mei]) (peopleAt a)) s"
proof (rule re_match_firstHit)
  fix b a
  show "ends False NAME_PEOPLE_PATTERN (b, a) = []
        \<longleftrightarrow> map_option (\<lambda>ds. ds @ [c_mei]) (peopleAt a) = None"
    unfolding ends_NAME_PEOPLE peopleAt_def by simp
next
  fix b a m
  assume "map_option (\<lambda>ds. ds @ [c_mei]) (peopleAt a) = Some m"
  then have h: "takeWhile isDigit a \<noteq> []" "take 1 (dropWhile isDigit a) = [c_mei]"
    "m = takeWhile isDigit a @ [c_mei]"
    by (auto simp: peopleAt_def split: if_splits)
  show "snd (hd (ends False NAME_PEOPLE_PATTERN (b, a))) = drop (length m) a
        \<and> m = take (length m) a \<and> length m \<le> length a"
    using h takeWhile_dropWhile_length[OF h(2)]
    by (simp add: ends_NAME_PEOPLE)
qed

lemma firstHit_map_option:
  "firstHit (\<lambda>a. map_option g (f a)) s = map_option g (firstHit f s)"
  by (induction s) (auto split: option.splits)

lemma firstHit_SomeD: "firstHit f s = Some m \<Longrightarrow> \<exists>a. f a = Some m"
  by (induction s) (auto split: option.splits)

lemma js_Number_digits: "list_all isDigit ds \<Longrightarrow> js_Number ds = of_int (digitsVal ds)"
proof (cases ds)
  case Nil
  then show ?thesis by (simp add: js_Number_def digitsVal_def)
next
  case (Cons d ds')
  assume a: "list_all isDigit ds"
  then have "d \<noteq> 45" using Cons by (auto simp: isDigit_def)
  moreover have "takeWhile isDigit ds = ds" using a by (simp add: list_all_iff)
  ultimately show ?thesis using Cons
    by (simp add: js_Number_def Let_def digitsVal_def)
qed

lemma fourDigitsAt_digits: "fourDigitsAt a = Some m \<Longrightarrow> list_all isDigit m"
  by (auto simp: fourDigitsAt_def list_all_iff split: if_splits dest!: in_set_takeD set_takeWhileD)

lemma peopleAt_digits: "peopleAt a = Some m \<Longrightarrow> list_all isDigit m"
  by (auto simp: peopleAt_def list_all_iff split: if_splits dest!: set_takeWhileD)

lemma course_price:
  "(case re_match False PRICE_PATTERN name of None \<Rightarrow> 0 | Some m \<Rightarrow> js_Number m) =
   (case firstHit fourDigitsAt name of None \<Rightarrow> 0 | Some ds \<Rightarrow> of_int (digitsVal ds))"
  using firstHit_SomeD[of fourDigitsAt name] fourDigitsAt_digits js_Number_digits
  by (auto simp: re_match_PRICE split: option.splits)

lemma course_people:
  "(case re_match False NAME_PEOPLE_PATTERN name of None \<Rightarrow> count | Some m \<Rightarrow> js_Number (butlast m)) =
   (case firstHit peopleAt name of None \<Rightarrow> count | Some ds \<Rightarrow> of_int (digitsVal ds))"
  using firstHit_SomeD[of peopleAt name] peopleAt_digits js_Number_digits
  by (auto simp: re_match_NAME_PEOPLE firstHit_map_option split: option.splits)

text \<open>
  Claim C2. A product row with a non-zero quantity that no earlier rule takes (it is not
  excluded, not forced to the unassigned list, no side dish) and whose name matches the course
  pattern, or whose category matches the reservation pattern, appends exactly one course entry
  and changes nothing else: the plain, set and course counts of every ramen variant stay as
  they were, also when the name contains the keyword of a variant. The price of the entry is
  the number written by the first four to five digits in a row in the name, 0 when the name
  has no four digits in a row; its headcount is the number written by the first run of
  digits that the counter for people follows, the quantity of the row when there is none.
\<close>

theorem course_row_one_entry:
  assumes "name = firstKeyStr P r PRODUCT_NAME_CANDS"
    and "count = firstByCandidates P r PRODUCT_QTY_CANDS"
    and "category = firstKeyStr P r PRODUCT_CATEGORY_CANDS"
    and "count \<noteq> 0"
    and "\<not> list_ex (\<lambda>rx. re_test True rx name) EXCLUDED_PRODUCT_REGEXPS"
    and "\<not> (re_test True FORCE_AMBIG_SET_HANA_GEKKA name \<and> re_test True rx_set_marker name)"
    and "\<not> isYokubariCurry name" and "\<not> isPattyCurry name"
    and "re_test True rx_course_name name \<or> re_test True rx_course_category category"
  shows
    "productStep P r acc =
       acc\<lparr>coursePeople := coursePeople acc @
          [\<lparr>cp_label = (if re_test True DINNER_PATTERN name then w_dinner
                        else if re_test True CROWDFUND_PATTERN name then w_crowdfund @ w_course
                        else w_course),
            cp_price = (case firstHit fourDigitsAt name of
                          None \<Rightarrow> 0 | Some ds \<Rightarrow> of_int (digitsVal ds)),
            cp_count = (case firstHit peopleAt name of
                          None \<Rightarrow> count | Some ds \<Rightarrow> of_int (digitsVal ds))\<rparr>]\<rparr>
     \<and> localTotals (productStep P r acc) = localTotals acc
     \<and> localSetTotals (productStep P r acc) = localSetTotals acc
     \<and> localCourseTotals (productStep P r acc) = localCourseTotals acc"
proof -
  have step: "productStep P r acc = classifyProduct name count category acc"
    using assms(4) unfolding assms(1-3) by (simp add: productStep_def Let_def)
  show ?thesis
    unfolding step using assms(5-9)
    by (simp add: classifyProduct_def isCourse_def courseEntry_def Let_def course_price
        course_people)
qed

theorem course_row_one_entry_witness:
  "firstKeyStr testPlatform courseRow PRODUCT_NAME_CANDS = n_setsugetsu_course
   \<and> firstByCandidates testPlatform courseRow PRODUCT_QTY_CANDS = 1
   \<and> firstKeyStr testPlatform courseRow PRODUCT_CATEGORY_CANDS = []
   \<and> \<not> list_ex (\<lambda>rx. re_test True rx n_setsugetsu_course) EXCLUDED_PRODUCT_REGEXPS
   \<and> \<not> (re_test True FORCE_AMBIG_SET_HANA_GEKKA n_setsugetsu_course
          \<and> re_test True rx_set_marker n_setsugetsu_course)
   \<and> \<not> isYokubariCurry n_setsugetsu_course \<and> \<not> isPattyCurry n_setsugetsu_course
   \<and> re_test True rx_course_name n_setsugetsu_course
   \<and> guessRamenKey n_setsugetsu_course = Some Setsugetsu
   \<and> productStep testPlatform courseRow emptyProdAcc =
       emptyProdAcc\<lparr>coursePeople := [\<lparr>cp_label = w_course, cp_price = 8000, cp_count = 4\<rparr>]\<rparr>
   \<and> localTotals (productStep testPlatform courseRow emptyProdAcc) Setsugetsu = 0"
proof -
  have h1: "n_setsugetsu_course = firstKeyStr testPlatform courseRow PRODUCT_NAME_CANDS"
    by code_simp
  have h2: "1 = firstByCandidates testPlatform courseRow PRODUCT_QTY_CANDS" by code_simp
  have h3: "[] = firstKeyStr testPlatform courseRow PRODUCT_CATEGORY_CANDS" by code_simp
  have h4: "(1::rat) \<noteq> 0" by simp
  have h5: "\<not> list_ex (\<lambda>rx. re_test True rx n_setsugetsu_course) EXCLUDED_PRODUCT_REGEXPS"
    by code_simp
  have h6: "\<not> (re_test True FORCE_AMBIG_SET_HANA_GEKKA n_setsugetsu_course
          \<and> re_test True rx_set_marker n_setsugetsu_course)" by code_simp
  have h7: "\<not> isYokubariCurry n_setsugetsu_course" by code_simp
  have h8: "\<not> isPattyCurry n_setsugetsu_course" by code_simp
  have h9: "re_test True rx_course_name n_setsugetsu_course" by code_simp
  have h9': "re_test True rx_course_name n_setsugetsu_course \<or> re_test True rx_course_category []"
    using h9 by simp
  have g: "guessRamenKey n_setsugetsu_course = Some Setsugetsu" by code_simp
  have e: "\<not> re_test True DINNER_PATTERN n_setsugetsu_course
           \<and> \<not> re_test True CROWDFUND_PATTERN n_setsugetsu_course
           \<and> (case firstHit fourDigitsAt n_setsugetsu_course of
                 None \<Rightarrow> 0 | Some ds \<Rightarrow> rat_of_int (digitsVal ds)) = 8000
           \<and> (case firstHit peopleAt n_setsugetsu_course of
                 None \<Rightarrow> 1 | Some ds \<Rightarrow> rat_of_int (digitsVal ds)) = 4" by code_simp
  have t: "localTotals emptyProdAcc Setsugetsu = 0" by code_simp
  show ?thesis
    using course_row_one_entry[OF h1 h2 h3 h4 h5 h6 h7 h8 h9', of emptyProdAcc]
      h1 h2 h3 h5 h6 h7 h8 h9 g e t
    by (simp add: emptyProdAcc_def)
qed


section \<open>Properties of the report renderer\<close>

lemma noDoubleBlank_append:
  "xs \<noteq> [] \<Longrightarrow> ys \<noteq> [] \<Longrightarrow>
   noDoubleBlank (xs @ ys) \<longleftrightarrow>
     noDoubleBlank xs \<and> noDoubleBlank ys \<and> \<not> (last xs = [] \<and> hd ys = [])"
proof (induction xs)
  case Nil
  then show ?case by simp
next
  case (Cons a xs)
  then show ?case by (cases xs; cases ys) auto
qed

lemma noDoubleBlank_filled: "[] \<notin> set ys \<Longrightarrow> noDoubleBlank ys"
  by (induction ys rule: noDoubleBlank.induct) auto

lemma headed_pushBlank: "headed ls \<Longrightarrow> headed (pushBlank ls) \<and> last (pushBlank ls) = []"
  by (auto simp: headed_def pushBlank_def noDoubleBlank_append)

lemma headed_section:
  assumes "headed ls" and "sec \<noteq> []" and "[] \<notin> set sec"
  shows "headed (pushBlank ls @ sec) \<and> last (pushBlank ls @ sec) \<noteq> []"
proof -
  have p: "headed (pushBlank ls)" "last (pushBlank ls) = []"
    using headed_pushBlank[OF assms(1)] by simp_all
  have h: "hd sec \<noteq> []" "last sec \<noteq> []"
    using assms(2,3) by (metis hd_in_set, metis last_in_set)
  show ?thesis
    using p h assms(2,3)
    by (auto simp: headed_def noDoubleBlank_append noDoubleBlank_filled)
qed

lemma jpDateLabel_filled: "jpDateLabel P d \<noteq> []"
  by (simp add: jpDateLabel_def split: option.splits)

lemma paymentLines_filled: "[] \<notin> set (paymentLines P m)"
  by (auto simp: paymentLines_def)

lemma gpLines_filled: "[] \<notin> set (gpLines P m)"
  by (auto simp: gpLines_def)

lemma ramenLines_filled: "[] \<notin> set (ramenLines P rt rs rc)"
  by (auto simp: ramenLines_def ramenLine_def Let_def w_ramen_def split: if_splits)

lemma sideLines_filled: "[] \<notin> set (sideLines P m)"
  by (auto simp: sideLines_def w_yokubari_def w_patty_def)

lemma courseLines_filled: "[] \<notin> set (concat (map (courseLine P) cps))"
  by (auto simp: courseLine_def Let_def split: if_splits)

text \<open>
  The blank lines of the report, for every state: the first line is never blank, two blank
  lines never follow one another, and the last line is blank exactly when there are course
  entries, none of them gives a line, and nothing is unassigned.
\<close>

lemma renderLines_blank_lines:
  "headed (renderLines P m rt rs rc cps n)
   \<and> (last (renderLines P m rt rs rc cps n) = []
        \<longleftrightarrow> cps \<noteq> [] \<and> concat (map (courseLine P) cps) = [] \<and> n = 0)"
proof -
  define l1 where "l1 = [jpDateLabel P (dateISO m)]"
  define l2 where "l2 = (if paymentLines P m \<noteq> [] then pushBlank l1 @ paymentLines P m else l1)"
  define l3 where "l3 = (if gpLines P m \<noteq> [] then pushBlank l2 @ gpLines P m else l2)"
  define l4 where "l4 = (if ramenTotalCount rt rs rc > 0 then pushBlank l3 @ ramenLines P rt rs rc else l3)"
  define l5 where "l5 = (if sideLines P m \<noteq> [] then pushBlank l4 @ sideLines P m else l4)"
  define l6 where "l6 = (if cps \<noteq> [] then pushBlank l5 @ concat (map (courseLine P) cps) else l5)"
  define l7 where "l7 = (if n > 0 then pushBlank l6 @ [unassignedNotice P n] else l6)"
  have r: "renderLines P m rt rs rc cps n = l7"
    by (simp add: renderLines_def Let_def l1_def l2_def l3_def l4_def l5_def l6_def l7_def)
  have i1: "headed l1 \<and> last l1 \<noteq> []"
    by (simp add: l1_def headed_def jpDateLabel_filled)
  have i2: "headed l2 \<and> last l2 \<noteq> []"
    unfolding l2_def using i1 headed_section[OF _ _ paymentLines_filled, of l1 P m] by simp
  have i3: "headed l3 \<and> last l3 \<noteq> []"
    unfolding l3_def using i2 headed_section[OF _ _ gpLines_filled, of l2 P m] by simp
  have i4: "headed l4 \<and> last l4 \<noteq> []"
    unfolding l4_def using i3 headed_section[OF _ _ ramenLines_filled, of l3 P rt rs rc]
    by (simp add: ramenLines_def)
  have i5: "headed l5 \<and> last l5 \<noteq> []"
    unfolding l5_def using i4 headed_section[OF _ _ sideLines_filled, of l4 P m] by simp
  have i6: "headed l6 \<and> (last l6 = [] \<longleftrightarrow> cps \<noteq> [] \<and> concat (map (courseLine P) cps) = [])"
  proof (cases "cps \<noteq> [] \<and> concat (map (courseLine P) cps) = []")
    case True
    then have "l6 = pushBlank l5" by (simp add: l6_def)
    then show ?thesis using True headed_pushBlank[of l5] i5 by simp
  next
    case False
    show ?thesis
    proof (cases "cps = []")
      case True
      then show ?thesis using i5 by (simp add: l6_def)
    next
      case ne: False
      then have "concat (map (courseLine P) cps) \<noteq> []" using False by simp
      then show ?thesis
        unfolding l6_def
        using ne i5 headed_section[OF _ _ courseLines_filled, of l5 P cps] by simp
    qed
  qed
  have i7: "headed l7 \<and> (last l7 = [] \<longleftrightarrow> cps \<noteq> [] \<and> concat (map (courseLine P) cps) = [] \<and> n = 0)"
  proof (cases "n > 0")
    case True
    have "[] \<notin> set [unassignedNotice P n]" by (simp add: unassignedNotice_def)
    then show ?thesis
      unfolding l7_def using True i6 headed_section[of l6 "[unassignedNotice P n]"] by simp
  next
    case False
    then show ?thesis unfolding l7_def using i6 by simp
  qed
  show ?thesis unfolding r using i7 .
qed

text \<open>A product row can leave a course entry without people in the state.\<close>

lemma zero_people_course_reachable:
  "coursePeople (classifyProducts testPlatform [zeroPeopleRow]) = [zeroPeopleCourse]"
  by code_simp

text \<open>
  Claim C9 fails on the code. With a course entry whose count is not positive and nothing
  else to report, the course section pushes its blank separator and then no line: the lines
  are the date and a blank line, and the text ends with a line feed.
\<close>

theorem render_empty_course_section_leaves_blank:
  "renderLines P emptyMeta makeEmptyTotals makeEmptyTotals makeEmptyTotals [zeroPeopleCourse] 0
     = [jpDateLabel P (dateISO emptyMeta), []]
   \<and> renderOutput P emptyMeta makeEmptyTotals makeEmptyTotals makeEmptyTotals [zeroPeopleCourse] 0
     = jpDateLabel P (dateISO emptyMeta) @ [0x0A]"
proof -
  have d: "jpDateLabel P (dateISO emptyMeta) \<noteq> []"
    by (simp add: jpDateLabel_def split: option.splits)
  have l: "renderLines P emptyMeta makeEmptyTotals makeEmptyTotals makeEmptyTotals
             [zeroPeopleCourse] 0 = [jpDateLabel P (dateISO emptyMeta), []]"
    using d
    by (simp add: renderLines_def Let_def paymentLines_def gpLines_def sideLines_def
        ramenTotalCount_def RAMEN_KEYS_def makeEmptyTotals_def emptyMeta_def
        PAYMENT_KEY_ORDER_def courseLine_def zeroPeopleCourse_def pushBlank_def)
  show ?thesis
    unfolding renderOutput_def l by simp
qed

end
